theory Spec2Isabelle
  imports Main
begin

section \<open>Strings, truthiness and the revision allocator\<close>

text \<open>
  A JavaScript string is modelled as a \<^typ>\<open>string\<close> whose characters are the code units
  below 256. An optional property (\<^verbatim>\<open>_rev?: string\<close>) is a \<^typ>\<open>string option\<close>, with
  \<open>None\<close> for \<^verbatim>\<open>undefined\<close>. Such a value is falsy when it is undefined or the empty
  string.
\<close>

definition truthy :: "string option \<Rightarrow> bool" where
  "truthy x = (case x of None \<Rightarrow> False | Some v \<Rightarrow> v \<noteq> [])"

text \<open>\<^verbatim>\<open>x || undefined\<close>\<close>

definition or_undefined :: "string option \<Rightarrow> string option" where
  "or_undefined x = (if truthy x then x else None)"

text \<open>\<^verbatim>\<open>x || y\<close> for a string \<open>y\<close>\<close>

definition or_else :: "string option \<Rightarrow> string \<Rightarrow> string" where
  "or_else x y = (case x of None \<Rightarrow> y | Some v \<Rightarrow> if v \<noteq> [] then v else y)"

text \<open>\<^verbatim>\<open>s.indexOf(c)\<close>: the position of the first occurrence, or \<open>-1\<close>.\<close>

fun indexOf :: "string \<Rightarrow> char \<Rightarrow> int" where
  "indexOf [] c = - 1"
| "indexOf (x # xs) c =
     (if x = c then 0 else (let r = indexOf xs c in if r < 0 then - 1 else r + 1))"

definition is_digit :: "char \<Rightarrow> bool" where
  "is_digit c = (c \<in> set ''0123456789'')"

definition is_hex :: "char \<Rightarrow> bool" where
  "is_hex c = (c \<in> set ''0123456789abcdefABCDEF'')"

definition is_decimal_digits :: "string \<Rightarrow> bool" where
  "is_decimal_digits s = (s \<noteq> [] \<and> list_all is_digit s)"

definition dec_value :: "string \<Rightarrow> nat" where
  "dec_value ds = foldl (\<lambda>a c. 10 * a + (of_char c - 48)) 0 ds"

definition digit_char :: "nat \<Rightarrow> char" where
  "digit_char d = ''0123456789'' ! d"

text \<open>The decimal rendering of a natural number, as a template literal prints an integer.\<close>

fun dec_digits :: "nat \<Rightarrow> string" where
  "dec_digits n =
     (if n < 10 then [digit_char n] else dec_digits (n div 10) @ [digit_char (n mod 10)])"

declare dec_digits.simps [simp del]

subsection \<open>\<^verbatim>\<open>Number(string)\<close>\<close>

text \<open>
  \<^verbatim>\<open>Number\<close> applied to a string trims white space and reads a numeric literal. The model
  computes the result where the literal denotes a natural number up to \<open>2\<^sup>5\<^sup>3\<close>, however
  written (decimal digits with an optional \<^verbatim>\<open>+\<close>, fraction and exponent, or a hexadecimal,
  octal or binary literal): these numbers are doubles. The text \<^verbatim>\<open>Infinity\<close>, with or
  without sign, is \<open>Infinite\<close>, and a text that is no numeric literal is \<^verbatim>\<open>NaN\<close>. Every
  other numeric literal (a number that is not whole, a negative one, a number beyond
  \<open>2\<^sup>5\<^sup>3\<close>) denotes a double that the model does not compute: it is kept as \<open>Inexact\<close>
  with its text, and what the runtime makes of it is a parameter of \<open>nextRev\<close>.
\<close>

datatype number = Integer nat | NaN | Infinite | Inexact string

definition is_ws :: "char \<Rightarrow> bool" where
  "is_ws c = (c \<in> {CHR 0x09, CHR 0x0A, CHR 0x0B, CHR 0x0C, CHR 0x0D, CHR 0x20, CHR 0xA0})"

definition trim :: "string \<Rightarrow> string" where
  "trim s = rev (dropWhile is_ws (rev (dropWhile is_ws s)))"

definition exponent_part :: "string \<Rightarrow> bool" where
  "exponent_part s =
     (case s of
        [] \<Rightarrow> False
      | c # r \<Rightarrow>
          (c = CHR ''e'' \<or> c = CHR ''E'') \<and>
          (case r of
             [] \<Rightarrow> False
           | g # t \<Rightarrow>
               if g = CHR ''+'' \<or> g = CHR ''-'' then is_decimal_digits t
               else is_decimal_digits r))"

definition unsigned_decimal :: "string \<Rightarrow> bool" where
  "unsigned_decimal s =
     (s = ''Infinity'' \<or>
      (let ip = takeWhile is_digit s; r = dropWhile is_digit s
       in case r of
            [] \<Rightarrow> ip \<noteq> []
          | c # t \<Rightarrow>
              if c = CHR ''.''
              then (let fp = takeWhile is_digit t; r2 = dropWhile is_digit t
                    in (ip \<noteq> [] \<or> fp \<noteq> []) \<and> (r2 = [] \<or> exponent_part r2))
              else ip \<noteq> [] \<and> exponent_part r))"

definition non_decimal :: "string \<Rightarrow> bool" where
  "non_decimal s =
     (case s of
        z # x # ds \<Rightarrow>
          z = CHR ''0'' \<and> ds \<noteq> [] \<and>
          ((x \<in> set ''bB'' \<and> list_all (\<lambda>c. c \<in> set ''01'') ds) \<or>
           (x \<in> set ''oO'' \<and> list_all (\<lambda>c. c \<in> set ''01234567'') ds) \<or>
           (x \<in> set ''xX'' \<and> list_all is_hex ds))
      | _ \<Rightarrow> False)"

definition numeric_literal :: "string \<Rightarrow> bool" where
  "numeric_literal t =
     (non_decimal t \<or>
      (case t of
         [] \<Rightarrow> False
       | c # r \<Rightarrow>
           if c = CHR ''+'' \<or> c = CHR ''-'' then unsigned_decimal r else unsigned_decimal t))"

text \<open>The value of a digit in a radix up to 16, and of a string of such digits.\<close>

definition digit_value :: "char \<Rightarrow> nat" where
  "digit_value c =
     (if c \<in> set ''0123456789'' then of_char c - 48
      else if c \<in> set ''abcdef'' then of_char c - 87
      else of_char c - 55)"

definition radix_value :: "nat \<Rightarrow> string \<Rightarrow> nat" where
  "radix_value b ds = foldl (\<lambda>a c. b * a + digit_value c) 0 ds"

text \<open>The value of a literal \<^verbatim>\<open>0b...\<close>, \<^verbatim>\<open>0o...\<close> or \<^verbatim>\<open>0x...\<close>.\<close>

definition non_decimal_value :: "string \<Rightarrow> nat" where
  "non_decimal_value s =
     (case s of
        z # x # ds \<Rightarrow>
          if x \<in> set ''bB'' then radix_value 2 ds
          else if x \<in> set ''oO'' then radix_value 8 ds
          else radix_value 16 ds
      | _ \<Rightarrow> 0)"

text \<open>The exponent that an exponent part \<^verbatim>\<open>e...\<close> denotes; no exponent part is exponent 0.\<close>

definition exponent_value :: "string \<Rightarrow> int" where
  "exponent_value s =
     (case s of
        [] \<Rightarrow> 0
      | c # r \<Rightarrow>
          (case r of
             [] \<Rightarrow> 0
           | g # t \<Rightarrow>
               if g = CHR ''+'' then int (dec_value t)
               else if g = CHR ''-'' then - int (dec_value t)
               else int (dec_value r)))"

text \<open>
  The value of an unsigned decimal literal (digits, fraction, exponent) when it is a natural
  number: the digits of the integer and fraction parts, scaled by ten to the exponent less the
  number of fraction digits.
\<close>

definition decimal_value :: "string \<Rightarrow> nat option" where
  "decimal_value s =
     (let ip = takeWhile is_digit s;
          r = dropWhile is_digit s;
          fp = (case r of
                  [] \<Rightarrow> []
                | c # t \<Rightarrow> if c = CHR ''.'' then takeWhile is_digit t else []);
          ex = (case r of
                  [] \<Rightarrow> []
                | c # t \<Rightarrow> if c = CHR ''.'' then dropWhile is_digit t else r);
          m = dec_value (ip @ fp);
          scale = exponent_value ex - int (length fp)
      in if 0 \<le> scale then Some (m * 10 ^ nat scale)
         else if 10 ^ nat (- scale) dvd m then Some (m div 10 ^ nat (- scale))
         else None)"

definition Number :: "string \<Rightarrow> number" where
  "Number s =
     (let t = trim s
      in if t = [] then Integer 0
         else if t = ''Infinity'' \<or> t = ''+Infinity'' \<or> t = ''-Infinity'' then Infinite
         else if non_decimal t
         then (if non_decimal_value t \<le> 2 ^ 53 then Integer (non_decimal_value t)
               else Inexact t)
         else
           let b = (case t of [] \<Rightarrow> [] | c # r \<Rightarrow> if c = CHR ''+'' then r else t)
           in if unsigned_decimal b
              then (case decimal_value b of
                      Some v \<Rightarrow> if v \<le> 2 ^ 53 then Integer v else Inexact t
                    | None \<Rightarrow> Inexact t)
              else if numeric_literal t then Inexact t
              else NaN)"

subsection \<open>\<^verbatim>\<open>nextRev\<close>\<close>

text \<open>
  \<^verbatim>\<open>
  function nextRev(prev?: string): string {
    if (!prev) return `1-${uuidv4().slice(0, 8)}`;
    const dash = prev.indexOf('-');
    let n = 0;
    if (dash > 0) {
      const num = Number(prev.slice(0, dash));
      if (Number.isFinite(num)) n = num as number;
    }
    const next = (n || 0) + 1;
    return `${next}-${uuidv4().slice(0, 8)}`;
  }
  \<close>
  The parameter \<open>u\<close> is the string that this call of \<^verbatim>\<open>uuidv4()\<close> returns.

  \<open>plus_one\<close> is \<^verbatim>\<open>(n || 0) + 1\<close> on a double that is a natural number \<open>n\<close> up to
  \<open>2\<^sup>5\<^sup>3\<close>: below \<open>2\<^sup>5\<^sup>3\<close> the sum is exact; \<open>2\<^sup>5\<^sup>3 + 1\<close> is no double, lies halfway
  between the doubles \<open>2\<^sup>5\<^sup>3\<close> and \<open>2\<^sup>5\<^sup>3 + 2\<close>, and rounds to the even one, \<open>2\<^sup>5\<^sup>3\<close>.
  The template literal prints these integers in decimal digits. \<^verbatim>\<open>NaN\<close> and the infinities
  are not finite, so that \<open>n\<close> stays 0 and the text is \<^verbatim>\<open>1\<close>.

  The parameter \<open>ieee\<close> gives, for the text \<open>t\<close> of an \<open>Inexact\<close> number \<open>x\<close>, the text that
  the runtime prints for \<^verbatim>\<open>((Number.isFinite(x) ? x : 0) || 0) + 1\<close>.
\<close>

definition plus_one :: "nat \<Rightarrow> nat" where
  "plus_one n = (if n < 2 ^ 53 then n + 1 else n)"

definition nextRev :: "(string \<Rightarrow> string) \<Rightarrow> string \<Rightarrow> string option \<Rightarrow> string" where
  "nextRev ieee u prev =
     (case prev of
        None \<Rightarrow> ''1-'' @ take 8 u
      | Some p \<Rightarrow>
          if p = [] then ''1-'' @ take 8 u
          else
            let dash = indexOf p CHR ''-'';
                next =
                  (if dash > 0
                   then (case Number (take (nat dash) p) of
                           Integer n \<Rightarrow> dec_digits (plus_one n)
                         | NaN \<Rightarrow> ''1''
                         | Infinite \<Rightarrow> ''1''
                         | Inexact t \<Rightarrow> ieee t)
                   else ''1'')
            in next @ ''-'' @ take 8 u)"

section \<open>Documents and the key-value store\<close>

text \<open>
  \<^verbatim>\<open>type Doc = { _id: string; _rev?: string; [key: string]: any }\<close>. The attributes other than
  \<^verbatim>\<open>_id\<close> and \<^verbatim>\<open>_rev\<close> are a map from names to values of an arbitrary type \<open>'v\<close>.
  \<^verbatim>\<open>Partial<Doc>\<close> is the same with an optional \<^verbatim>\<open>_id\<close>.
\<close>

record 'v Doc =
  doc_id :: string
  doc_rev :: "string option"
  doc_fields :: "string \<rightharpoonup> 'v"

record 'v PartialDoc =
  in_id :: "string option"
  in_rev :: "string option"
  in_fields :: "string \<rightharpoonup> 'v"

text \<open>
  The store is \<^verbatim>\<open>Level<string, string>\<close>: keys are document ids, values are texts. Of a stored
  text the model keeps what \<^verbatim>\<open>JSON.parse\<close> makes of it: the document it denotes
  (\<open>Encoded\<close>, what \<^verbatim>\<open>JSON.stringify\<close> writes), or that it does not parse (\<open>Malformed\<close>).
  The operations of the store itself are taken not to fail: \<^verbatim>\<open>db.get\<close> either finds the
  value or reports \<^verbatim>\<open>notFound\<close>.
\<close>

datatype 'v stored = Encoded "'v Doc" | Malformed string

type_synonym 'v store = "string \<rightharpoonup> 'v stored"

definition JSON_stringify :: "'v Doc \<Rightarrow> 'v stored" where
  "JSON_stringify d = Encoded d"

fun parseJSON :: "'v stored \<Rightarrow> 'v Doc option" where
  "parseJSON (Encoded d) = Some d"
| "parseJSON (Malformed t) = None"

text \<open>
  An \<^verbatim>\<open>Error\<close> with its message and the \<^verbatim>\<open>status\<close> property that the engine attaches.
  A computation takes the state and returns the state together with the value it returns or
  the error it throws; for the steps of the engine the state is the store.
\<close>

datatype error = Error (status: "nat option") (message: string)

type_synonym ('v, 'a) io = "'v store \<Rightarrow> (error + 'a) \<times> 'v store"

definition return :: "'a \<Rightarrow> 's \<Rightarrow> (error + 'a) \<times> 's" where
  "return x s = (Inr x, s)"

definition throw :: "error \<Rightarrow> 's \<Rightarrow> (error + 'a) \<times> 's" where
  "throw e s = (Inl e, s)"

definition bind ::
  "('s \<Rightarrow> (error + 'a) \<times> 's) \<Rightarrow> ('a \<Rightarrow> 's \<Rightarrow> (error + 'b) \<times> 's) \<Rightarrow>
   's \<Rightarrow> (error + 'b) \<times> 's" where
  "bind m f s = (case m s of (Inl e, s') \<Rightarrow> (Inl e, s') | (Inr x, s') \<Rightarrow> f x s')"

definition db_put :: "string \<Rightarrow> 'v stored \<Rightarrow> ('v, unit) io" where
  "db_put k v s = (Inr (), s(k \<mapsto> v))"

definition db_del :: "string \<Rightarrow> ('v, unit) io" where
  "db_del k s = (Inr (), s(k := None))"

text \<open>
  The pattern that every operation uses to read the current document:
  \<^verbatim>\<open>
  try { const str = await db.get(_id); return parseJSON<Doc>(str); }
  catch (err) { if (err && err.notFound) return undefined; throw err; }
  \<close>
\<close>

definition load :: "string \<Rightarrow> ('v, 'v Doc option) io" where
  "load k s = (case s k of None \<Rightarrow> (Inr None, s) | Some str \<Rightarrow> (Inr (parseJSON str), s))"

text \<open>\<^verbatim>\<open>existing?._rev\<close>\<close>

definition rev_of :: "'v Doc option \<Rightarrow> string option" where
  "rev_of existing = (case existing of None \<Rightarrow> None | Some d \<Rightarrow> doc_rev d)"

text \<open>\<^verbatim>\<open>{ ...existing, ...input, _id }\<close>\<close>

definition spread :: "'v Doc option \<Rightarrow> 'v PartialDoc \<Rightarrow> string \<Rightarrow> 'v Doc" where
  "spread existing input k =
     \<lparr> doc_id = k,
       doc_rev = (case in_rev input of Some r \<Rightarrow> Some r | None \<Rightarrow> rev_of existing),
       doc_fields =
         (case existing of None \<Rightarrow> Map.empty | Some d \<Rightarrow> doc_fields d) ++ in_fields input \<rparr>"

definition conflict_mismatch :: error where
  "conflict_mismatch = Error (Some 409) ''conflict: revision mismatch''"

definition conflict_missing :: error where
  "conflict_missing = Error (Some 409) ''conflict: document does not exist''"

definition invalid_remote_put :: error where
  "invalid_remote_put = Error (Some 400) ''invalid: missing _rev for remote put''"

section \<open>The document engine\<close>

definition get :: "string \<Rightarrow> ('v, 'v Doc option) io" where
  "get k = load k"

text \<open>
  The compare-and-swap write shared by the plain \<^verbatim>\<open>put\<close> and by \<^verbatim>\<open>tx.put\<close>
  (\<^verbatim>\<open>casPut\<close>), for the key \<open>k\<close> of the enclosing scope:
  \<^verbatim>\<open>
  if (existing) {
    if (!input._rev || input._rev !== existing._rev) throw 409 'conflict: revision mismatch';
  } else {
    if (input._rev) throw 409 'conflict: document does not exist';
  }
  const next = { ...existing, ...input, _id };
  next._rev = nextRev(existing?._rev);
  await db.put(_id, JSON.stringify(next));
  return next;
  \<close>
\<close>

definition casPut ::
  "(string \<Rightarrow> string) \<Rightarrow> string \<Rightarrow> string \<Rightarrow> 'v PartialDoc \<Rightarrow> ('v, 'v Doc) io" where
  "casPut ieee k u input =
     bind (load k) (\<lambda>existing.
       case existing of
         Some e \<Rightarrow>
           if \<not> truthy (in_rev input) \<or> in_rev input \<noteq> doc_rev e
           then throw conflict_mismatch
           else
             (let next = (spread existing input k)\<lparr>doc_rev := Some (nextRev ieee u (rev_of existing))\<rparr>
              in bind (db_put k (JSON_stringify next)) (\<lambda>_. return next))
       | None \<Rightarrow>
           if truthy (in_rev input)
           then throw conflict_missing
           else
             (let next = (spread existing input k)\<lparr>doc_rev := Some (nextRev ieee u (rev_of existing))\<rparr>
              in bind (db_put k (JSON_stringify next)) (\<lambda>_. return next)))"

text \<open>
  \<^verbatim>\<open>put(input)\<close>: \<^verbatim>\<open>const _id = input._id || uuidv4()\<close>, then the same steps under the
  lock of \<^verbatim>\<open>_id\<close>. \<open>u_id\<close> and \<open>u_rev\<close> are what the two calls of \<^verbatim>\<open>uuidv4()\<close> return
  (the first is only made when \<^verbatim>\<open>input._id\<close> is falsy).
\<close>

definition put ::
  "(string \<Rightarrow> string) \<Rightarrow> string \<Rightarrow> string \<Rightarrow> 'v PartialDoc \<Rightarrow> ('v, 'v Doc) io" where
  "put ieee u_id u_rev input =
     (let k = or_else (in_id input) u_id
      in bind (load k) (\<lambda>existing.
           case existing of
             Some e \<Rightarrow>
               if \<not> truthy (in_rev input) \<or> in_rev input \<noteq> doc_rev e
               then throw conflict_mismatch
               else
                 (let next = (spread existing input k)
                       \<lparr>doc_rev := Some (nextRev ieee u_rev (rev_of existing))\<rparr>
                  in bind (db_put k (JSON_stringify next)) (\<lambda>_. return next))
           | None \<Rightarrow>
               if truthy (in_rev input)
               then throw conflict_missing
               else
                 (let next = (spread existing input k)
                       \<lparr>doc_rev := Some (nextRev ieee u_rev (rev_of existing))\<rparr>
                  in bind (db_put k (JSON_stringify next)) (\<lambda>_. return next))))"

definition del :: "string \<Rightarrow> ('v, unit) io" where
  "del k = db_del k"

text \<open>
  \<^verbatim>\<open>
  async function casReplace(doc, expectedPrevRev?) {
    const existing = await load();
    const currentRev = existing?._rev;
    if ((currentRev || undefined) !== (expectedPrevRev || undefined)) throw 409;
    await db.put(_id, JSON.stringify({ ...doc, _id }));
  }
  \<close>
\<close>

definition casReplace :: "string \<Rightarrow> 'v Doc \<Rightarrow> string option \<Rightarrow> ('v, unit) io" where
  "casReplace k doc expectedPrevRev =
     bind (load k) (\<lambda>existing.
       let currentRev = rev_of existing
       in if or_undefined currentRev \<noteq> or_undefined expectedPrevRev
          then throw conflict_mismatch
          else db_put k (JSON_stringify (doc\<lparr>doc_id := k\<rparr>)))"

text \<open>
  \<^verbatim>\<open>
  async function casDelete(prevRev?) {
    const existing = await load();
    const currentRev = existing?._rev;
    if (prevRev !== undefined) {
      if ((currentRev || undefined) !== (prevRev || undefined)) throw 409;
    }
    if (existing) await db.del(_id);
  }
  \<close>
\<close>

definition casDelete :: "string \<Rightarrow> string option \<Rightarrow> ('v, unit) io" where
  "casDelete k prevRev =
     bind (load k) (\<lambda>existing.
       let currentRev = rev_of existing
       in if prevRev \<noteq> None \<and> or_undefined currentRev \<noteq> or_undefined prevRev
          then throw conflict_mismatch
          else if existing \<noteq> None then db_del k else return ())"

subsection \<open>The per-document mutex and the transaction scope\<close>

text \<open>
  \<^verbatim>\<open>
  class Mutex {
    private queue: Array<() => void> = [];
    private locked = false;
    async acquire(): Promise<() => void> {
      return new Promise((resolve) => {
        const release = () => {
          const next = this.queue.shift();
          if (next) { next(); } else { this.locked = false; }
        };
        if (!this.locked) { this.locked = true; resolve(release); }
        else { this.queue.push(() => resolve(release)); }
      });
    }
  }
  const mutexes = new Map<string, Mutex>();
  function getMutex(id) {
    let m = mutexes.get(id);
    if (!m) { m = new Mutex(); mutexes.set(id, m); }
    return m;
  }
  \<close>
  A queued closure \<^verbatim>\<open>() => resolve(release)\<close> stands for a call that waits; the model keeps
  one \<open>Waiter\<close> for it. \<open>acquire\<close> says whether the promise is resolved at once. A
  \<open>release\<close> that finds a waiter resolves that waiter's promise and leaves the mutex locked,
  now held by the waiter.
\<close>

datatype waiter = Waiter

record Mutex =
  queue :: "waiter list"
  locked :: bool

definition acquire :: "Mutex \<Rightarrow> bool \<times> Mutex" where
  "acquire m =
     (if \<not> locked m then (True, m\<lparr>locked := True\<rparr>)
      else (False, m\<lparr>queue := queue m @ [Waiter]\<rparr>))"

definition release :: "Mutex \<Rightarrow> Mutex" where
  "release m = (case queue m of [] \<Rightarrow> m\<lparr>locked := False\<rparr> | next # rest \<Rightarrow> m\<lparr>queue := rest\<rparr>)"

definition getMutex :: "string \<Rightarrow> (string \<rightharpoonup> Mutex) \<Rightarrow> Mutex \<times> (string \<rightharpoonup> Mutex)" where
  "getMutex k ms =
     (case ms k of
        Some m \<Rightarrow> (m, ms)
      | None \<Rightarrow> (\<lparr> queue = [], locked = False \<rparr>, ms(k \<mapsto> \<lparr> queue = [], locked = False \<rparr>)))"

text \<open>
  The state of a node: the store and the table of mutexes. \<open>acquire_mutex\<close> is
  \<^verbatim>\<open>getMutex(_id).acquire()\<close> and \<open>release_mutex\<close> is the call of the \<^verbatim>\<open>release\<close> that it
  gave, both on the mutex object in the table.
\<close>

record 'v node =
  db :: "'v store"
  mutexes :: "string \<rightharpoonup> Mutex"

type_synonym ('v, 'a) task = "'v node \<Rightarrow> (error + 'a) \<times> 'v node"

definition acquire_mutex :: "string \<Rightarrow> 'v node \<Rightarrow> bool \<times> 'v node" where
  "acquire_mutex k n =
     (case getMutex k (mutexes n) of
        (m, ms) \<Rightarrow> (case acquire m of (granted, m') \<Rightarrow> (granted, n\<lparr>mutexes := ms(k \<mapsto> m')\<rparr>)))"

definition release_mutex :: "string \<Rightarrow> 'v node \<Rightarrow> 'v node" where
  "release_mutex k n =
     (case mutexes n k of
        None \<Rightarrow> n
      | Some m \<Rightarrow> n\<lparr>mutexes := (mutexes n)(k \<mapsto> release m)\<rparr>)"

text \<open>\<^verbatim>\<open>getMutex(_id).isLocked()\<close>, false when the key has no mutex yet.\<close>

definition locked_at :: "'v node \<Rightarrow> string \<Rightarrow> bool" where
  "locked_at n k = (case mutexes n k of None \<Rightarrow> False | Some m \<Rightarrow> locked m)"

text \<open>A step of the engine on the store, as a step on the node; it leaves the mutexes alone.\<close>

definition on_db :: "('v, 'a) io \<Rightarrow> ('v, 'a) task" where
  "on_db step n = (case step (db n) of (r, s') \<Rightarrow> (r, n\<lparr>db := s'\<rparr>))"

text \<open>
  The transaction handle and the scope:
  \<^verbatim>\<open>
  export async function withDocTransaction(_id, fn) {
    const release = await getMutex(_id).acquire();
    try {
      ... load, casReplace, casDelete, casPut ...
      const tx = { get: load, put: casPut, del: casDelete, replaceExact: casReplace };
      const result = await fn(tx);
      return result;
    } finally {
      release();
    }
  }
  \<close>
  When the mutex is locked the call is queued and waits: it does not return in this step,
  which is the result \<open>None\<close>. When it is granted, the body runs on the node with the mutex
  locked, and the mutex is released after it, also when the body throws. An error thrown by
  the body leaves the store as the body left it. The plain operations \<^verbatim>\<open>put\<close>, \<^verbatim>\<open>del\<close>,
  \<^verbatim>\<open>applyRemotePut\<close> and \<^verbatim>\<open>applyRemoteDel\<close> take and release the same mutex around their
  one step on the store, which is what their definitions here are.
\<close>

record 'v DocTransaction =
  tx_get :: "('v, 'v Doc option) task"
  tx_put :: "string \<Rightarrow> 'v PartialDoc \<Rightarrow> ('v, 'v Doc) task"
  tx_del :: "string option \<Rightarrow> ('v, unit) task"
  tx_replaceExact :: "'v Doc \<Rightarrow> string option \<Rightarrow> ('v, unit) task"

definition transaction_handle :: "(string \<Rightarrow> string) \<Rightarrow> string \<Rightarrow> 'v DocTransaction" where
  "transaction_handle ieee k =
     \<lparr> tx_get = on_db (load k),
       tx_put = (\<lambda>u input. on_db (casPut ieee k u input)),
       tx_del = (\<lambda>prevRev. on_db (casDelete k prevRev)),
       tx_replaceExact = (\<lambda>doc expectedPrevRev. on_db (casReplace k doc expectedPrevRev)) \<rparr>"

definition withDocTransaction ::
  "(string \<Rightarrow> string) \<Rightarrow> string \<Rightarrow> ('v DocTransaction \<Rightarrow> ('v, 'a) task) \<Rightarrow>
   'v node \<Rightarrow> (error + 'a) option \<times> 'v node" where
  "withDocTransaction ieee k fn n =
     (case acquire_mutex k n of
        (False, n1) \<Rightarrow> (None, n1)
      | (True, n1) \<Rightarrow>
          (case fn (transaction_handle ieee k) n1 of
             (result, n2) \<Rightarrow> (Some result, release_mutex k n2)))"

text \<open>
  \<^verbatim>\<open>
  export async function applyRemotePut(doc, prevRev?) {
    const _id = doc._id;
    if (!doc._rev) throw 400 'invalid: missing _rev for remote put';
    ... existing = parseJSON(await db.get(_id)) or undefined ...
    const currentRev = existing?._rev;
    if ((currentRev || undefined) !== (prevRev || undefined)) throw 409;
    const toStore = { ...doc, _id };
    await db.put(_id, JSON.stringify(toStore));
    return toStore;
  }
  \<close>
\<close>

definition applyRemotePut :: "'v Doc \<Rightarrow> string option \<Rightarrow> ('v, 'v Doc) io" where
  "applyRemotePut doc prevRev =
     (let k = doc_id doc
      in if \<not> truthy (doc_rev doc) then throw invalid_remote_put
         else
           bind (load k) (\<lambda>existing.
             let currentRev = rev_of existing
             in if or_undefined currentRev \<noteq> or_undefined prevRev
                then throw conflict_mismatch
                else
                  (let toStore = doc\<lparr>doc_id := k\<rparr>
                   in bind (db_put k (JSON_stringify toStore)) (\<lambda>_. return toStore))))"

definition applyRemoteDel :: "string \<Rightarrow> string option \<Rightarrow> ('v, unit) io" where
  "applyRemoteDel k prevRev =
     bind (load k) (\<lambda>existing.
       let currentRev = rev_of existing
       in if or_undefined currentRev \<noteq> or_undefined prevRev
          then throw conflict_mismatch
          else if existing \<noteq> None then db_del k else return ())"

section \<open>Replication client\<close>

text \<open>
  The change record that a node pushes to its peers. \<^verbatim>\<open>rev\<close> is \<^verbatim>\<open>saved._rev!\<close>, kept
  optional as the value is at run time.
\<close>

datatype 'v ReplicateMsg =
    ReplicatePut string "string option" "string option" "'v Doc"
  | ReplicateDel string "string option"

text \<open>
  What \<^verbatim>\<open>withTimeout(fetch(url, ...), DEFAULT_TIMEOUT)\<close> gives: a response with its status,
  or a rejection (network error or timeout). The network is the parameter \<open>fetch\<close>, and
  \<open>peers\<close> is what \<^verbatim>\<open>getPeers()\<close> returns.
\<close>

datatype fetch_result = Response nat | Rejected

datatype peer_type = Ack | Conflict | Failure

record push_result =
  acks :: "string list"
  conflicts :: "string list"
  failures :: "string list"

definition peer_url :: "string \<Rightarrow> string" where
  "peer_url base =
     (if base \<noteq> [] \<and> last base = CHR ''/'' then butlast base @ ''/replicate''
      else base @ ''/replicate'')"

definition pushToPeers ::
  "string list \<Rightarrow> (string \<Rightarrow> 'v ReplicateMsg \<Rightarrow> fetch_result) \<Rightarrow> 'v ReplicateMsg \<Rightarrow> push_result" where
  "pushToPeers peers fetch change =
     (let results =
            map (\<lambda>base.
                   (base,
                    case fetch (peer_url base) change of
                      Response n \<Rightarrow> if n = 200 then Ack else if n = 409 then Conflict else Failure
                    | Rejected \<Rightarrow> Failure))
                peers
      in \<lparr> acks = map fst (filter (\<lambda>r. snd r = Ack) results),
           conflicts = map fst (filter (\<lambda>r. snd r = Conflict) results),
           failures = map fst (filter (\<lambda>r. snd r = Failure) results) \<rparr>)"

section \<open>HTTP handlers\<close>

datatype 'v json_body = JsonDoc "'v Doc" | JsonError string | JsonOk

record 'v response =
  res_status :: nat
  res_body :: "'v json_body"

text \<open>\<^verbatim>\<open>e?.status || 500\<close> and \<^verbatim>\<open>e?.message || fallback\<close>\<close>

definition status_or_500 :: "error \<Rightarrow> nat" where
  "status_or_500 e = (case status e of None \<Rightarrow> 500 | Some n \<Rightarrow> if n \<noteq> 0 then n else 500)"

definition message_or :: "error \<Rightarrow> string \<Rightarrow> string" where
  "message_or e fallback = (if message e \<noteq> [] then message e else fallback)"

definition replication_conflict :: error where
  "replication_conflict = Error (Some 409) ''replication conflict''"

text \<open>
  \<^verbatim>\<open>POST /api/docs\<close>:
  \<^verbatim>\<open>
  const incoming = req.body || {};
  const desiredId: string = incoming._id || uuidv4();
  try {
    let result;
    await store.withDocTransaction(desiredId, async (tx) => {
      const prev = await tx.get();
      const saved = await tx.put({ ...incoming, _id: desiredId });
      const change = { op: 'put', _id: saved._id, prevRev: prev?._rev, rev: saved._rev!, doc: saved };
      const { conflicts } = await pushToPeers(change);
      if (conflicts.length > 0) {
        if (prev) { await tx.replaceExact(prev, saved._rev); } else { await tx.del(saved._rev); }
        throw 409 'replication conflict';
      }
      result = saved;
    });
    res.status(201).json(result);
  } catch (e) {
    res.status(e?.status || 500).json({ error: e?.message || 'Internal Error' });
  }
  \<close>
  \<open>docsRouter_post_fn\<close> is the function passed to \<^verbatim>\<open>withDocTransaction\<close>. The handler
  sends a response when the transaction returns; while the request waits for the mutex there
  is none.
\<close>

definition docsRouter_post_fn ::
  "string \<Rightarrow> string list \<Rightarrow> (string \<Rightarrow> 'v ReplicateMsg \<Rightarrow> fetch_result) \<Rightarrow> 'v PartialDoc \<Rightarrow>
   string \<Rightarrow> 'v DocTransaction \<Rightarrow> ('v, 'v Doc) task" where
  "docsRouter_post_fn u_rev peers fetch incoming desiredId tx =
     bind (tx_get tx) (\<lambda>prev.
     bind (tx_put tx u_rev (incoming\<lparr>in_id := Some desiredId\<rparr>)) (\<lambda>saved.
       let change = ReplicatePut (doc_id saved) (rev_of prev) (doc_rev saved) saved
       in if conflicts (pushToPeers peers fetch change) \<noteq> []
          then bind (case prev of
                       Some p \<Rightarrow> tx_replaceExact tx p (doc_rev saved)
                     | None \<Rightarrow> tx_del tx (doc_rev saved))
                 (\<lambda>_. throw replication_conflict)
          else return saved))"

definition docsRouter_post ::
  "(string \<Rightarrow> string) \<Rightarrow> string \<Rightarrow> string \<Rightarrow> string list \<Rightarrow>
   (string \<Rightarrow> 'v ReplicateMsg \<Rightarrow> fetch_result) \<Rightarrow> 'v PartialDoc \<Rightarrow>
   'v node \<Rightarrow> 'v response option \<times> 'v node" where
  "docsRouter_post ieee u_id u_rev peers fetch incoming n =
     (let desiredId = or_else (in_id incoming) u_id
      in case withDocTransaction ieee desiredId
                (docsRouter_post_fn u_rev peers fetch incoming desiredId) n of
           (None, n') \<Rightarrow> (None, n')
         | (Some (Inr result), n') \<Rightarrow>
             (Some \<lparr> res_status = 201, res_body = JsonDoc result \<rparr>, n')
         | (Some (Inl e), n') \<Rightarrow>
             (Some \<lparr> res_status = status_or_500 e,
                     res_body = JsonError (message_or e ''Internal Error'') \<rparr>, n'))"

text \<open>
  The body of \<^verbatim>\<open>POST /replicate\<close> is \<^verbatim>\<open>req.body as ReplicateMsg\<close>: any of its properties
  may be missing, and \<^verbatim>\<open>doc\<close> is what the sender put there.
  \<^verbatim>\<open>
  if (!body || !body.op || !body._id) return res.status(400).json({ error: 'invalid payload' });
  try {
    if (body.op === 'put') {
      const { doc, prevRev } = body;
      if (!doc || doc._id !== body._id || doc._rev !== body.rev)
        return res.status(400).json({ error: 'invalid put payload' });
      await store.applyRemotePut(doc, prevRev);
      return res.status(200).json({ ok: true });
    }
    if (body.op === 'del') {
      await store.applyRemoteDel(body._id, body.prevRev);
      return res.status(200).json({ ok: true });
    }
    return res.status(400).json({ error: 'invalid op' });
  } catch (e) {
    return res.status(e?.status || 500).json({ error: e?.message || 'error' });
  }
  \<close>
\<close>

record 'v ReplicateBody =
  body_op :: "string option"
  body_id :: "string option"
  body_prevRev :: "string option"
  body_rev :: "string option"
  body_doc :: "'v PartialDoc option"

definition error_response :: "error \<Rightarrow> 'v response" where
  "error_response e = \<lparr> res_status = status_or_500 e, res_body = JsonError (message_or e ''error'') \<rparr>"

definition replicationRouter_post ::
  "'v ReplicateBody option \<Rightarrow> 'v store \<Rightarrow> 'v response \<times> 'v store" where
  "replicationRouter_post body s =
     (case body of
        None \<Rightarrow> (\<lparr> res_status = 400, res_body = JsonError ''invalid payload'' \<rparr>, s)
      | Some b \<Rightarrow>
          if \<not> truthy (body_op b) \<or> \<not> truthy (body_id b)
          then (\<lparr> res_status = 400, res_body = JsonError ''invalid payload'' \<rparr>, s)
          else
            let k = or_else (body_id b) []
            in if body_op b = Some ''put''
               then (case body_doc b of
                       None \<Rightarrow> (\<lparr> res_status = 400, res_body = JsonError ''invalid put payload'' \<rparr>, s)
                     | Some doc \<Rightarrow>
                         if in_id doc \<noteq> body_id b \<or> in_rev doc \<noteq> body_rev b
                         then (\<lparr> res_status = 400,
                                  res_body = JsonError ''invalid put payload'' \<rparr>, s)
                         else
                           (case applyRemotePut
                                   \<lparr> doc_id = k, doc_rev = in_rev doc, doc_fields = in_fields doc \<rparr>
                                   (body_prevRev b) s of
                              (Inr _, s') \<Rightarrow> (\<lparr> res_status = 200, res_body = JsonOk \<rparr>, s')
                            | (Inl e, s') \<Rightarrow> (error_response e, s')))
               else if body_op b = Some ''del''
               then (case applyRemoteDel k (body_prevRev b) s of
                       (Inr _, s') \<Rightarrow> (\<lparr> res_status = 200, res_body = JsonOk \<rparr>, s')
                     | (Inl e, s') \<Rightarrow> (error_response e, s'))
               else (\<lparr> res_status = 400, res_body = JsonError ''invalid op'' \<rparr>, s))"

section \<open>Notions of the specification\<close>

text \<open>
  The substring of a revision before its first \<^verbatim>\<open>-\<close>; it is missing when the revision has
  no \<^verbatim>\<open>-\<close> or nothing before it.
\<close>

definition rev_prefix :: "string \<Rightarrow> string option" where
  "rev_prefix r =
     (if CHR ''-'' \<in> set r \<and> takeWhile (\<lambda>x. x \<noteq> CHR ''-'') r \<noteq> []
      then Some (takeWhile (\<lambda>x. x \<noteq> CHR ''-'') r) else None)"

text \<open>The generation of a revision: its prefix read as a decimal integer.\<close>

definition generation :: "string \<Rightarrow> nat option" where
  "generation r =
     (case rev_prefix r of
        None \<Rightarrow> None
      | Some pre \<Rightarrow> if is_decimal_digits pre then Some (dec_value pre) else None)"

text \<open>
  A well-formed revision \<^verbatim>\<open><n>-<h>\<close>: \<open>n\<close> a positive decimal integer, \<open>h\<close> eight
  hexadecimal characters.
\<close>

definition well_formed_rev :: "string \<Rightarrow> bool" where
  "well_formed_rev r =
     (case generation r of
        None \<Rightarrow> False
      | Some n \<Rightarrow>
          0 < n \<and>
          (let h = drop (Suc (length (takeWhile (\<lambda>x. x \<noteq> CHR ''-'') r))) r
           in length h = 8 \<and> list_all is_hex h))"

text \<open>
  What the library function \<^verbatim>\<open>uuidv4()\<close> returns: 36 characters,
  \<^verbatim>\<open>xxxxxxxx-xxxx-4xxx-yxxx-xxxxxxxxxxxx\<close> with hexadecimal \<open>x\<close> and \<open>y\<close> one of 8, 9, a, b.
\<close>

definition is_uuidv4 :: "string \<Rightarrow> bool" where
  "is_uuidv4 u =
     (length u = 36 \<and>
      list_all is_hex (take 8 u) \<and> u ! 8 = CHR ''-'' \<and>
      list_all is_hex (take 4 (drop 9 u)) \<and> u ! 13 = CHR ''-'' \<and>
      u ! 14 = CHR ''4'' \<and> list_all is_hex (take 3 (drop 15 u)) \<and> u ! 18 = CHR ''-'' \<and>
      u ! 19 \<in> set ''89ab'' \<and> list_all is_hex (take 3 (drop 20 u)) \<and> u ! 23 = CHR ''-'' \<and>
      list_all is_hex (drop 24 u))"

text \<open>
  The value under a key is as the engine writes it: nothing, or the text of a document whose
  \<^verbatim>\<open>_id\<close> is the key.
\<close>

definition stored_ok :: "'v store \<Rightarrow> string \<Rightarrow> bool" where
  "stored_ok s k =
     (case s k of
        None \<Rightarrow> True
      | Some (Encoded d) \<Rightarrow> doc_id d = k
      | Some (Malformed t) \<Rightarrow> False)"

text \<open>The document that the engine reads under a key, and its revision.\<close>

definition current :: "'v store \<Rightarrow> string \<Rightarrow> 'v Doc option" where
  "current s k = (case s k of None \<Rightarrow> None | Some str \<Rightarrow> parseJSON str)"

definition stored_rev :: "'v store \<Rightarrow> string \<Rightarrow> string option" where
  "stored_rev s k = rev_of (current s k)"


text \<open>
  The generation from which the next local write of a key counts: 0 when the engine reads no
  document there, else the generation of the stored revision.
\<close>

definition current_generation :: "'v store \<Rightarrow> string \<Rightarrow> nat option" where
  "current_generation s k =
     (case current s k of
        None \<Rightarrow> Some 0
      | Some d \<Rightarrow> (case doc_rev d of None \<Rightarrow> None | Some r \<Rightarrow> generation r))"

text \<open>
  The generation that \<^verbatim>\<open>nextRev\<close> counts from for the document under a key: 0 when the
  engine reads no document there or its revision has no prefix or one that is no finite
  number, else the number that the prefix denotes. It is not given where that number is left
  to the runtime.
\<close>

definition counts_from :: "'v store \<Rightarrow> string \<Rightarrow> nat option" where
  "counts_from s k =
     (case stored_rev s k of
        None \<Rightarrow> Some 0
      | Some r \<Rightarrow>
          (case rev_prefix r of
             None \<Rightarrow> Some 0
           | Some pre \<Rightarrow>
               (case Number pre of
                  Integer n \<Rightarrow> Some n
                | NaN \<Rightarrow> Some 0
                | Infinite \<Rightarrow> Some 0
                | Inexact t \<Rightarrow> None)))"

text \<open>
  Operations on one key \<open>k\<close>, in sequence: the two local writes (the plain \<^verbatim>\<open>put\<close> with
  \<^verbatim>\<open>_id\<close> set to \<open>k\<close>, and \<^verbatim>\<open>tx.put\<close> of a transaction of \<open>k\<close>), reads, and the other
  operations that change what is stored under \<open>k\<close>: the plain \<^verbatim>\<open>del\<close>, \<^verbatim>\<open>tx.del\<close> and
  \<^verbatim>\<open>tx.replaceExact\<close> of a transaction of \<open>k\<close> (the rollback of the handlers), and the remote
  applies. \<open>assigned_revs\<close> runs a sequence and collects the revisions that the successful
  local writes assign, in order.
\<close>

datatype 'v operation =
    PlainPut string string "'v PartialDoc"
  | TxPut string "'v PartialDoc"
  | Get
  | Delete
  | TxDel "string option"
  | TxReplaceExact "'v Doc" "string option"
  | RemotePut "'v Doc" "string option"
  | RemoteDel "string option"

text \<open>The operations that are a local write or a read.\<close>

fun write_or_read :: "'v operation \<Rightarrow> bool" where
  "write_or_read (PlainPut u_id u input) = True"
| "write_or_read (TxPut u input) = True"
| "write_or_read Get = True"
| "write_or_read _ = False"

fun assigned_revs ::
  "(string \<Rightarrow> string) \<Rightarrow> string \<Rightarrow> 'v operation list \<Rightarrow> 'v store \<Rightarrow> string option list" where
  "assigned_revs ieee k [] s = []"
| "assigned_revs ieee k (PlainPut u_id u input # ops) s =
     (case put ieee u_id u (input\<lparr>in_id := Some k\<rparr>) s of
        (Inr d, s') \<Rightarrow> doc_rev d # assigned_revs ieee k ops s'
      | (Inl e, s') \<Rightarrow> assigned_revs ieee k ops s')"
| "assigned_revs ieee k (TxPut u input # ops) s =
     (case casPut ieee k u input s of
        (Inr d, s') \<Rightarrow> doc_rev d # assigned_revs ieee k ops s'
      | (Inl e, s') \<Rightarrow> assigned_revs ieee k ops s')"
| "assigned_revs ieee k (Get # ops) s = assigned_revs ieee k ops (snd (get k s))"
| "assigned_revs ieee k (Delete # ops) s = assigned_revs ieee k ops (snd (del k s))"
| "assigned_revs ieee k (TxDel prevRev # ops) s =
     assigned_revs ieee k ops (snd (casDelete k prevRev s))"
| "assigned_revs ieee k (TxReplaceExact doc expectedPrevRev # ops) s =
     assigned_revs ieee k ops (snd (casReplace k doc expectedPrevRev s))"
| "assigned_revs ieee k (RemotePut doc prevRev # ops) s =
     assigned_revs ieee k ops (snd (applyRemotePut (doc\<lparr>doc_id := k\<rparr>) prevRev s))"
| "assigned_revs ieee k (RemoteDel prevRev # ops) s =
     assigned_revs ieee k ops (snd (applyRemoteDel k prevRev s))"

definition rev_generation :: "string option \<Rightarrow> nat option" where
  "rev_generation r = (case r of None \<Rightarrow> None | Some t \<Rightarrow> generation t)"

text \<open>
  The bodies that \<^verbatim>\<open>POST /replicate\<close> is to refuse: no \<^verbatim>\<open>op\<close> or no non-empty
  \<^verbatim>\<open>_id\<close>, an \<^verbatim>\<open>op\<close> other than \<^verbatim>\<open>put\<close> and \<^verbatim>\<open>del\<close>, or a \<^verbatim>\<open>put\<close> without
  \<^verbatim>\<open>doc\<close> or with \<^verbatim>\<open>doc._id\<close> unequal to \<^verbatim>\<open>_id\<close> or \<^verbatim>\<open>doc._rev\<close> unequal to \<^verbatim>\<open>rev\<close>.
\<close>

definition invalid_body :: "'v ReplicateBody option \<Rightarrow> bool" where
  "invalid_body body =
     (case body of
        None \<Rightarrow> True
      | Some b \<Rightarrow>
          body_op b = None \<or> \<not> truthy (body_id b) \<or>
          (body_op b \<noteq> Some ''put'' \<and> body_op b \<noteq> Some ''del'') \<or>
          (body_op b = Some ''put'' \<and>
           (case body_doc b of
              None \<Rightarrow> True
            | Some doc \<Rightarrow> in_id doc \<noteq> body_id b \<or> in_rev doc \<noteq> body_rev b)))"

text \<open>The document that a successful local write of key \<open>k\<close> stores and returns.\<close>

definition next_doc ::
  "(string \<Rightarrow> string) \<Rightarrow> string \<Rightarrow> string \<Rightarrow> 'v PartialDoc \<Rightarrow> 'v store \<Rightarrow> 'v Doc" where
  "next_doc ieee k u input s =
     (spread (current s k) input k)\<lparr>doc_rev := Some (nextRev ieee u (stored_rev s k))\<rparr>"

text \<open>
  Two revisions match when they are equal, an empty string counting as an absent revision.
\<close>

definition revs_match :: "string option \<Rightarrow> string option \<Rightarrow> bool" where
  "revs_match a b =
     (((a = None \<or> a = Some []) \<and> (b = None \<or> b = Some [])) \<or>
      (a = b \<and> a \<noteq> None \<and> a \<noteq> Some []))"

text \<open>
  The precondition of a local write, in the words of the specification: if a document exists
  under the key then \<^verbatim>\<open>input._rev\<close> equals its current \<^verbatim>\<open>_rev\<close>, and if none exists then
  \<^verbatim>\<open>input._rev\<close> is absent.
\<close>

definition stated_precondition :: "'v Doc option \<Rightarrow> 'v PartialDoc \<Rightarrow> bool" where
  "stated_precondition existing input =
     (case existing of
        Some e \<Rightarrow> in_rev input = doc_rev e
      | None \<Rightarrow> in_rev input = None)"

text \<open>
  The precondition with the empty string taken into account: if a document exists then
  \<^verbatim>\<open>input._rev\<close> is a non-empty string equal to its current \<^verbatim>\<open>_rev\<close>, and if none exists
  then \<^verbatim>\<open>input._rev\<close> is absent or empty.
\<close>

definition cas_precondition :: "'v Doc option \<Rightarrow> 'v PartialDoc \<Rightarrow> bool" where
  "cas_precondition existing input =
     (case existing of
        Some e \<Rightarrow> in_rev input = doc_rev e \<and> in_rev input \<noteq> None \<and> in_rev input \<noteq> Some []
      | None \<Rightarrow> in_rev input = None \<or> in_rev input = Some [])"

section \<open>Properties of the revision allocator\<close>

lemmas num_defs = Number_def trim_def is_ws_def is_decimal_digits_def is_digit_def dec_value_def
  numeric_literal_def non_decimal_def unsigned_decimal_def exponent_part_def is_hex_def
  digit_value_def radix_value_def non_decimal_value_def exponent_value_def decimal_value_def
  plus_one_def

lemma digit_char_is_digit: "d < 10 \<Longrightarrow> is_digit (digit_char d)"
proof -
  assume "d < 10"
  then have "d \<in> {0, 1, 2, 3, 4, 5, 6, 7, 8, 9}" by auto
  then show ?thesis by (auto simp: is_digit_def digit_char_def)
qed

lemma digit_char_value: "d < 10 \<Longrightarrow> of_char (digit_char d) - 48 = d"
proof -
  assume "d < 10"
  then have "d \<in> {0, 1, 2, 3, 4, 5, 6, 7, 8, 9}" by auto
  then show ?thesis by (auto simp: digit_char_def)
qed

lemma dec_digits_digits: "list_all is_digit (dec_digits n)"
  by (induction n rule: dec_digits.induct) (subst dec_digits.simps, simp add: digit_char_is_digit)

lemma dec_digits_nonempty: "dec_digits n \<noteq> []"
  by (subst dec_digits.simps) simp

lemma dec_value_snoc: "dec_value (ds @ [c]) = 10 * dec_value ds + (of_char c - 48)"
  by (simp add: dec_value_def)

lemma dec_value_dec_digits: "dec_value (dec_digits n) = n"
proof (induction n rule: dec_digits.induct)
  case (1 n)
  show ?case
  proof (cases "n < 10")
    case True
    then show ?thesis by (subst dec_digits.simps) (simp add: dec_value_def digit_char_value)
  next
    case False
    with 1 have "dec_value (dec_digits (n div 10)) = n div 10" by simp
    with False show ?thesis
      by (subst dec_digits.simps) (simp add: dec_value_snoc digit_char_value)
  qed
qed

lemma digit_not_ws: "is_digit c \<Longrightarrow> \<not> is_ws c"
  by (auto simp: is_digit_def is_ws_def)

lemma digit_not_dash: "is_digit c \<Longrightarrow> c \<noteq> CHR ''-''"
  by (auto simp: is_digit_def)

lemma digit_not_plus: "is_digit c \<Longrightarrow> c \<noteq> CHR ''+''"
  by (auto simp: is_digit_def)

lemma trim_digits: "list_all is_digit ds \<Longrightarrow> trim ds = ds"
proof -
  assume a: "list_all is_digit ds"
  have 1: "dropWhile is_ws ds = ds"
    using a by (cases ds) (auto simp: digit_not_ws)
  have "list_all is_digit (rev ds)" using a by (simp add: list_all_iff)
  then have 2: "dropWhile is_ws (rev ds) = rev ds"
    by (cases "rev ds") (auto simp: digit_not_ws)
  show ?thesis by (simp add: trim_def 1 2)
qed

lemma digits_not_non_decimal: "list_all is_digit ds \<Longrightarrow> \<not> non_decimal ds"
  by (auto simp: non_decimal_def is_digit_def split: list.splits)

lemma takeWhile_digits: "list_all is_digit ds \<Longrightarrow> takeWhile is_digit ds = ds"
  by (simp add: list_all_iff)

lemma dropWhile_digits: "list_all is_digit ds \<Longrightarrow> dropWhile is_digit ds = []"
  by (simp add: list_all_iff)

lemma decimal_value_digits: "list_all is_digit ds \<Longrightarrow> decimal_value ds = Some (dec_value ds)"
  by (simp add: decimal_value_def takeWhile_digits dropWhile_digits exponent_value_def)

lemma unsigned_decimal_digits: "is_decimal_digits ds \<Longrightarrow> unsigned_decimal ds"
  by (simp add: unsigned_decimal_def is_decimal_digits_def takeWhile_digits dropWhile_digits)

lemma Number_digits:
  assumes "is_decimal_digits ds" "dec_value ds \<le> 2 ^ 53"
  shows "Number ds = Integer (dec_value ds)"
proof -
  from assms(1) obtain c r where ds: "ds = c # r" and c: "is_digit c"
    and all: "list_all is_digit ds"
    by (cases ds) (auto simp: is_decimal_digits_def)
  have t: "trim ds = ds" using all by (simp add: trim_digits)
  have i: "ds \<noteq> ''Infinity''" "ds \<noteq> ''+Infinity''" "ds \<noteq> ''-Infinity''"
    using c ds by (auto simp: is_digit_def)
  have b: "(case ds of [] \<Rightarrow> [] | c # r \<Rightarrow> if c = CHR ''+'' then r else ds) = ds"
    using c ds by (simp add: digit_not_plus)
  show ?thesis
    unfolding Number_def t Let_def b
    using assms(2) ds i digits_not_non_decimal [OF all] unsigned_decimal_digits [OF assms(1)]
      decimal_value_digits [OF all]
    by simp
qed

lemma Number_dec_digits: "n \<le> 2 ^ 53 \<Longrightarrow> Number (dec_digits n) = Integer n"
  using Number_digits [of "dec_digits n"]
  by (simp add: is_decimal_digits_def dec_digits_digits dec_digits_nonempty dec_value_dec_digits)

lemma indexOf_nonneg_iff: "0 \<le> indexOf p c \<longleftrightarrow> c \<in> set p"
  by (induction p) (auto simp: Let_def)

lemma indexOf_takeWhile:
  "c \<in> set p \<Longrightarrow> indexOf p c = int (length (takeWhile (\<lambda>x. x \<noteq> c) p))"
  by (induction p) (auto simp: Let_def indexOf_nonneg_iff)

lemma indexOf_absent: "c \<notin> set p \<Longrightarrow> indexOf p c = - 1"
  by (induction p) (auto simp: Let_def)

lemma take_indexOf:
  "c \<in> set p \<Longrightarrow> take (nat (indexOf p c)) p = takeWhile (\<lambda>x. x \<noteq> c) p"
  by (simp add: indexOf_takeWhile takeWhile_eq_take [symmetric])

lemma nextRev_prefix_cases:
  "nextRev ieee u (Some p) =
     (case rev_prefix p of
        None \<Rightarrow> ''1''
      | Some pre \<Rightarrow>
          (case Number pre of
             Integer n \<Rightarrow> dec_digits (plus_one n)
           | NaN \<Rightarrow> ''1''
           | Infinite \<Rightarrow> ''1''
           | Inexact t \<Rightarrow> ieee t))
     @ ''-'' @ take 8 u"
proof (cases "CHR ''-'' \<in> set p")
  case False
  then show ?thesis
    by (simp add: nextRev_def rev_prefix_def indexOf_absent)
next
  case True
  then have "p \<noteq> []" by auto
  show ?thesis
  proof (cases "takeWhile (\<lambda>x. x \<noteq> CHR ''-'') p = []")
    case e: True
    then have "indexOf p CHR ''-'' = 0" using True by (simp add: indexOf_takeWhile)
    then show ?thesis using e by (simp add: nextRev_def rev_prefix_def)
  next
    case ne: False
    then have "indexOf p CHR ''-'' > 0" using True by (simp add: indexOf_takeWhile)
    then show ?thesis using ne True \<open>p \<noteq> []\<close>
      by (simp add: nextRev_def rev_prefix_def take_indexOf Let_def)
  qed
qed

lemma rev_prefix_digits_dash: "rev_prefix (dec_digits n @ CHR ''-'' # h) = Some (dec_digits n)"
proof -
  have "\<forall>x \<in> set (dec_digits n). x \<noteq> CHR ''-''"
    using dec_digits_digits [of n] by (auto simp: list_all_iff dest: digit_not_dash)
  then have "takeWhile (\<lambda>x. x \<noteq> CHR ''-'') (dec_digits n @ CHR ''-'' # h) = dec_digits n"
    by (simp add: takeWhile_append2)
  then show ?thesis by (simp add: rev_prefix_def dec_digits_nonempty)
qed

lemma Number_Integer_bound: "Number s = Integer n \<Longrightarrow> n \<le> 2 ^ 53"
  by (auto simp: Number_def Let_def split: if_splits option.splits)

section \<open>Properties of the engine\<close>

lemmas io_defs = bind_def return_def throw_def db_put_def db_del_def JSON_stringify_def

lemma load_current: "load k s = (Inr (current s k), s)"
  by (simp add: load_def current_def split: option.split)

lemma casPut_eq:
  "casPut ieee k u input s =
     (case current s k of
        Some e \<Rightarrow>
          if truthy (in_rev input) \<and> in_rev input = doc_rev e
          then (Inr (next_doc ieee k u input s), s(k \<mapsto> Encoded (next_doc ieee k u input s)))
          else (Inl conflict_mismatch, s)
      | None \<Rightarrow>
          if truthy (in_rev input) then (Inl conflict_missing, s)
          else (Inr (next_doc ieee k u input s), s(k \<mapsto> Encoded (next_doc ieee k u input s))))"
  by (simp add: casPut_def io_defs load_current next_doc_def stored_rev_def Let_def
      split: option.split)

lemma put_casPut: "put ieee u_id u input = casPut ieee (or_else (in_id input) u_id) u input"
  by (simp add: put_def casPut_def Let_def)

lemma casReplace_eq:
  "casReplace k doc expected s =
     (if or_undefined (stored_rev s k) = or_undefined expected
      then (Inr (), s(k \<mapsto> Encoded (doc\<lparr>doc_id := k\<rparr>)))
      else (Inl conflict_mismatch, s))"
  by (simp add: casReplace_def io_defs load_current stored_rev_def Let_def)

lemma casDelete_eq:
  "casDelete k prevRev s =
     (if prevRev \<noteq> None \<and> or_undefined (stored_rev s k) \<noteq> or_undefined prevRev
      then (Inl conflict_mismatch, s)
      else if current s k \<noteq> None then (Inr (), s(k := None)) else (Inr (), s))"
  by (simp add: casDelete_def io_defs load_current stored_rev_def Let_def)

lemma applyRemotePut_eq:
  "applyRemotePut doc prevRev s =
     (if \<not> truthy (doc_rev doc) then (Inl invalid_remote_put, s)
      else if or_undefined (stored_rev s (doc_id doc)) = or_undefined prevRev
      then (Inr doc, s(doc_id doc \<mapsto> Encoded doc))
      else (Inl conflict_mismatch, s))"
  by (simp add: applyRemotePut_def io_defs load_current stored_rev_def Let_def)

lemma applyRemoteDel_eq:
  "applyRemoteDel k prevRev s =
     (if or_undefined (stored_rev s k) \<noteq> or_undefined prevRev then (Inl conflict_mismatch, s)
      else if current s k \<noteq> None then (Inr (), s(k := None)) else (Inr (), s))"
  by (simp add: applyRemoteDel_def io_defs load_current stored_rev_def Let_def)



lemma casPut_success:
  "casPut ieee k u input s = (Inr saved, s1) \<Longrightarrow>
     saved = next_doc ieee k u input s \<and> s1 = s(k \<mapsto> Encoded saved)"
  by (auto simp: casPut_eq split: option.splits if_splits)

lemma next_doc_rev: "doc_rev (next_doc ieee k u input s) = Some (nextRev ieee u (stored_rev s k))"
  by (simp add: next_doc_def)

lemma next_doc_id: "doc_id (next_doc ieee k u input s) = k"
  by (simp add: next_doc_def spread_def)

lemma stored_rev_upd: "stored_rev (s(k \<mapsto> Encoded d)) k = doc_rev d"
  by (simp add: stored_rev_def current_def rev_of_def)


lemmas eval_defs = stored_ok_def or_else_def current_def stored_rev_def rev_of_def next_doc_def
  spread_def truthy_def or_undefined_def peer_url_def nextRev_def plus_one_def
  conflict_mismatch_def conflict_missing_def invalid_remote_put_def

lemma cas_precondition_code:
  "cas_precondition existing input =
     (case existing of
        Some e \<Rightarrow> truthy (in_rev input) \<and> in_rev input = doc_rev e
      | None \<Rightarrow> \<not> truthy (in_rev input))"
  by (auto simp: cas_precondition_def truthy_def split: option.splits)

lemma revs_match_code: "revs_match a b \<longleftrightarrow> or_undefined a = or_undefined b"
  by (auto simp: revs_match_def or_undefined_def truthy_def split: option.splits)

lemma next_doc_fields:
  "doc_fields (next_doc ieee k u input s) a =
     (case in_fields input a of
        Some v \<Rightarrow> Some v
      | None \<Rightarrow> (case current s k of None \<Rightarrow> None | Some e \<Rightarrow> doc_fields e a))"
  by (simp add: next_doc_def spread_def map_add_def split: option.split)

lemma generation_one: "generation (''1-'' @ h) = Some 1"
  by (simp add: generation_def rev_prefix_def num_defs)

lemma casPut_other_keys: "k' \<noteq> k \<Longrightarrow> snd (casPut ieee k u input s) k' = s k'"
  by (simp add: casPut_eq split: option.split)

lemma casReplace_other_keys: "k' \<noteq> k \<Longrightarrow> snd (casReplace k d e s) k' = s k'"
  by (simp add: casReplace_eq)

lemma casDelete_other_keys: "k' \<noteq> k \<Longrightarrow> snd (casDelete k e s) k' = s k'"
  by (simp add: casDelete_eq)

lemma casPut_ignores_id:
  "casPut ieee k u (input\<lparr>in_id := x\<rparr>) s = casPut ieee k u input s"
  by (simp add: casPut_eq next_doc_def spread_def split: option.split)

lemma uuid_nonempty: "is_uuidv4 u \<Longrightarrow> u \<noteq> []"
  by (auto simp: is_uuidv4_def)

lemma replicate_invalid:
  "invalid_body body \<Longrightarrow>
     res_status (fst (replicationRouter_post body s)) = 400 \<and>
     snd (replicationRouter_post body s) = s"
  by (auto simp: invalid_body_def replicationRouter_post_def truthy_def Let_def
      split: option.splits)

lemma replicate_put:
  assumes "\<not> invalid_body (Some b)" "body_op b = Some ''put''" "body_id b = Some k"
    "body_doc b = Some doc"
  shows "replicationRouter_post (Some b) s =
           (case applyRemotePut \<lparr> doc_id = k, doc_rev = in_rev doc, doc_fields = in_fields doc \<rparr>
                   (body_prevRev b) s of
              (Inr d, s') \<Rightarrow> (\<lparr> res_status = 200, res_body = JsonOk \<rparr>, s')
            | (Inl e, s') \<Rightarrow>
                (\<lparr> res_status = status_or_500 e, res_body = JsonError (message_or e ''error'') \<rparr>,
                 s'))"
  using assms
  by (auto simp: invalid_body_def replicationRouter_post_def truthy_def Let_def or_else_def
      error_response_def split: option.splits prod.splits sum.splits)

lemma replicate_del:
  assumes "\<not> invalid_body (Some b)" "body_op b = Some ''del''" "body_id b = Some k"
  shows "replicationRouter_post (Some b) s =
           (case applyRemoteDel k (body_prevRev b) s of
              (Inr d, s') \<Rightarrow> (\<lparr> res_status = 200, res_body = JsonOk \<rparr>, s')
            | (Inl e, s') \<Rightarrow>
                (\<lparr> res_status = status_or_500 e, res_body = JsonError (message_or e ''error'') \<rparr>,
                 s'))"
  using assms
  by (auto simp: invalid_body_def replicationRouter_post_def truthy_def Let_def or_else_def
      error_response_def split: option.splits prod.splits sum.splits)

lemmas replicate_eval = replicationRouter_post_def invalid_body_def applyRemotePut_eq
  applyRemoteDel_eq error_response_def status_or_500_def message_or_def

lemma takeWhile_digits_dash:
  "takeWhile (\<lambda>x. x \<noteq> CHR ''-'') (dec_digits n @ CHR ''-'' # h) = dec_digits n"
proof -
  have "\<forall>x \<in> set (dec_digits n). x \<noteq> CHR ''-''"
    using dec_digits_digits [of n] by (auto simp: list_all_iff dest: digit_not_dash)
  then show ?thesis by (simp add: takeWhile_append2)
qed

lemma generation_digits_dash: "generation (dec_digits n @ CHR ''-'' # h) = Some n"
  by (simp add: generation_def rev_prefix_digits_dash is_decimal_digits_def
      dec_digits_nonempty dec_digits_digits dec_value_dec_digits)

lemma well_formed_digits_dash:
  "0 < n \<Longrightarrow> length h = 8 \<Longrightarrow> list_all is_hex h \<Longrightarrow>
     well_formed_rev (dec_digits n @ CHR ''-'' # h)"
  by (simp add: well_formed_rev_def generation_digits_dash takeWhile_digits_dash)

lemma generation_prefix:
  "generation r = Some n \<Longrightarrow>
     \<exists>pre. rev_prefix r = Some pre \<and> is_decimal_digits pre \<and> dec_value pre = n"
  by (auto simp: generation_def split: option.splits if_splits)

lemma nextRev_generation:
  assumes "generation r = Some n" "n < 2 ^ 53"
  shows "nextRev ieee u (Some r) = dec_digits (n + 1) @ CHR ''-'' # take 8 u"
proof -
  from generation_prefix [OF assms(1)] obtain pre where
    p: "rev_prefix r = Some pre" "is_decimal_digits pre" "dec_value pre = n" by blast
  have "Number pre = Integer n" using Number_digits [of pre] p assms(2) by simp
  with p(1) assms(2) show ?thesis by (simp add: nextRev_prefix_cases plus_one_def)
qed

lemma nextRev_first:
  "\<not> truthy prev \<Longrightarrow> nextRev ieee u prev = dec_digits 1 @ CHR ''-'' # take 8 u"
  by (auto simp: nextRev_def truthy_def dec_digits.simps digit_char_def split: option.splits)

text \<open>The revision that a local write assigns, from the generation the key counts from.\<close>

lemma next_rev_from_generation:
  assumes "current_generation s k = Some g" "g < 2 ^ 53"
    and "current s k = None \<or> truthy (stored_rev s k)"
  shows "nextRev ieee u (stored_rev s k) = dec_digits (g + 1) @ CHR ''-'' # take 8 u"
proof (cases "current s k")
  case None
  then have "g = 0" "stored_rev s k = None"
    using assms(1) by (simp_all add: current_generation_def stored_rev_def rev_of_def)
  then show ?thesis using nextRev_first [of None ieee u] by (simp add: truthy_def)
next
  case (Some d)
  with assms(1) obtain r where r: "doc_rev d = Some r" "generation r = Some g"
    by (auto simp: current_generation_def split: option.splits)
  then have "stored_rev s k = Some r" using Some by (simp add: stored_rev_def rev_of_def)
  then show ?thesis using nextRev_generation [OF r(2) assms(2)] by simp
qed

lemma casPut_success_existing:
  "casPut ieee k u input s = (Inr d, s') \<Longrightarrow> current s k = None \<or> truthy (stored_rev s k)"
  by (auto simp: casPut_eq stored_rev_def rev_of_def split: option.splits if_splits)

lemma casPut_assigns:
  assumes "casPut ieee k u input s = (Inr d, s')"
    and "current_generation s k = Some g" "g < 2 ^ 53"
  shows "doc_rev d = Some (dec_digits (g + 1) @ CHR ''-'' # take 8 u) \<and>
         s' = s(k \<mapsto> Encoded d) \<and> doc_id d = k"
proof -
  from casPut_success [OF assms(1)]
  have d: "d = next_doc ieee k u input s" and s': "s' = s(k \<mapsto> Encoded d)" by simp_all
  have "doc_rev d = Some (nextRev ieee u (stored_rev s k))" by (simp add: d next_doc_rev)
  with next_rev_from_generation [OF assms(2,3) casPut_success_existing [OF assms(1)]]
  show ?thesis by (simp add: s' d next_doc_id)
qed

lemma dec_digits_numeral:
  "dec_digits (numeral n) =
     (if numeral n < (10::nat) then [digit_char (numeral n)]
      else dec_digits (numeral n div 10) @ [digit_char (numeral n mod 10)])"
  by (subst dec_digits.simps) simp

lemma dec_digits_small:
  "dec_digits 0 = ''0''" "dec_digits 1 = ''1''" "dec_digits (Suc 0) = ''1''"
  "dec_digits (Suc (Suc 0)) = ''2''"
  by (simp_all add: dec_digits.simps digit_char_def)

lemmas dec_eval = dec_digits_numeral dec_digits_small digit_char_def

lemmas wf_eval = current_generation_def generation_def rev_prefix_def well_formed_rev_def
  is_uuidv4_def num_defs

lemma plain_put_at_key:
  "k \<noteq> [] \<Longrightarrow> put ieee u_id u (input\<lparr>in_id := Some k\<rparr>) = casPut ieee k u input"
  by (rule ext) (simp add: put_casPut or_else_def casPut_ignores_id)

lemma casPut_failure: "casPut ieee k u input s = (Inl e, s') \<Longrightarrow> s' = s"
  by (auto simp: casPut_eq split: option.splits if_splits)

text \<open>
  Every operation of the engine and both handlers keep the value under each key as the engine
  writes it: absent, or the text of a document whose \<^verbatim>\<open>_id\<close> is the key.
\<close>

lemma stored_ok_upd:
  "stored_ok (s(k \<mapsto> Encoded d)) k' \<longleftrightarrow> (if k' = k then doc_id d = k else stored_ok s k')"
  by (simp add: stored_ok_def)

lemma stored_ok_del: "stored_ok s k' \<Longrightarrow> stored_ok (s(k := None)) k'"
  by (simp add: stored_ok_def)

lemma casPut_keeps_ok: "stored_ok s k' \<Longrightarrow> stored_ok (snd (casPut ieee k u input s)) k'"
  by (auto simp: casPut_eq stored_ok_upd next_doc_id split: option.split)

lemma put_keeps_ok: "stored_ok s k' \<Longrightarrow> stored_ok (snd (put ieee u_id u input s)) k'"
  by (simp add: put_casPut casPut_keeps_ok)

lemma casReplace_keeps_ok: "stored_ok s k' \<Longrightarrow> stored_ok (snd (casReplace k d e s)) k'"
  by (simp add: casReplace_eq stored_ok_upd)

lemma casDelete_keeps_ok: "stored_ok s k' \<Longrightarrow> stored_ok (snd (casDelete k e s)) k'"
  by (simp add: casDelete_eq stored_ok_del)

lemma del_keeps_ok: "stored_ok s k' \<Longrightarrow> stored_ok (snd (del k s)) k'"
  by (simp add: del_def db_del_def stored_ok_del)

lemma applyRemotePut_keeps_ok:
  "stored_ok s k' \<Longrightarrow> stored_ok (snd (applyRemotePut doc prevRev s)) k'"
  by (simp add: applyRemotePut_eq stored_ok_upd)

lemma applyRemoteDel_keeps_ok:
  "stored_ok s k' \<Longrightarrow> stored_ok (snd (applyRemoteDel k prevRev s)) k'"
  by (simp add: applyRemoteDel_eq stored_ok_del)

lemma replicate_keeps_ok:
  "stored_ok s k' \<Longrightarrow> stored_ok (snd (replicationRouter_post body s)) k'"
  by (auto simp: replicationRouter_post_def applyRemotePut_eq applyRemoteDel_eq stored_ok_upd
      stored_ok_del Let_def split: option.split)

text \<open>The mutex of a key, the steps on the store under it, and the transaction scope.\<close>

lemma acquire_mutex_free:
  assumes "\<not> locked_at n k"
  shows "fst (acquire_mutex k n)" "locked_at (snd (acquire_mutex k n)) k"
    "db (snd (acquire_mutex k n)) = db n"
  using assms
  by (auto simp: acquire_mutex_def getMutex_def acquire_def locked_at_def split: option.splits)

lemma acquire_mutex_locked:
  assumes "locked_at n k"
  shows "\<not> fst (acquire_mutex k n)" "locked_at (snd (acquire_mutex k n)) k"
    "db (snd (acquire_mutex k n)) = db n"
  using assms
  by (auto simp: acquire_mutex_def getMutex_def acquire_def locked_at_def split: option.splits)

lemma release_mutex_db: "db (release_mutex k n) = db n"
  by (simp add: release_mutex_def split: option.split)

lemma on_db_eq: "step (db n) = (r, s') \<Longrightarrow> on_db step n = (r, n\<lparr>db := s'\<rparr>)"
  by (simp add: on_db_def)

lemma on_db_result:
  "fst (on_db step n) = fst (step (db n))" "db (snd (on_db step n)) = snd (step (db n))"
  "mutexes (snd (on_db step n)) = mutexes n"
  by (simp_all add: on_db_def split: prod.split)


lemma locked_at_mutexes: "mutexes n' = mutexes n \<Longrightarrow> locked_at n' k = locked_at n k"
  by (simp add: locked_at_def)

text \<open>
  A transaction of a key whose mutex is locked does not run: the call waits and the store
  stays as it is. One whose mutex is free runs its function with the mutex locked and
  releases it afterwards.
\<close>

lemma transaction_waits:
  assumes "locked_at n k"
  shows "fst (withDocTransaction ieee k fn n) = None"
    "db (snd (withDocTransaction ieee k fn n)) = db n"
    "locked_at (snd (withDocTransaction ieee k fn n)) k"
  using acquire_mutex_locked [OF assms]
  by (auto simp: withDocTransaction_def split: prod.split bool.split)

lemma transaction_runs:
  assumes "\<not> locked_at n k"
  shows "withDocTransaction ieee k fn n =
           (Some (fst (fn (transaction_handle ieee k) (snd (acquire_mutex k n)))),
            release_mutex k (snd (fn (transaction_handle ieee k) (snd (acquire_mutex k n)))))"
  using acquire_mutex_free(1) [OF assms]
  by (auto simp: withDocTransaction_def split: prod.split bool.split)

lemma post_waits:
  assumes "locked_at n (or_else (in_id incoming) u_id)"
  shows "fst (docsRouter_post ieee u_id u_rev peers fetch incoming n) = None"
    "db (snd (docsRouter_post ieee u_id u_rev peers fetch incoming n)) = db n"
  using transaction_waits(1,2) [OF assms, of ieee
      "docsRouter_post_fn u_rev peers fetch incoming (or_else (in_id incoming) u_id)"]
  by (auto simp: docsRouter_post_def Let_def split: prod.split option.split sum.split)

text \<open>The function of \<^verbatim>\<open>POST /api/docs\<close> on the handle of its transaction, step by step.\<close>

lemma post_fn_eq:
  "docsRouter_post_fn u_rev peers fetch incoming k (transaction_handle ieee k) n1 =
     (case casPut ieee k u_rev (incoming\<lparr>in_id := Some k\<rparr>) (db n1) of
        (Inl e, s1) \<Rightarrow> (Inl e, n1\<lparr>db := s1\<rparr>)
      | (Inr saved, s1) \<Rightarrow>
          if conflicts (pushToPeers peers fetch
               (ReplicatePut (doc_id saved) (stored_rev (db n1) k) (doc_rev saved) saved)) \<noteq> []
          then (case (case current (db n1) k of
                        Some p \<Rightarrow> casReplace k p (doc_rev saved)
                      | None \<Rightarrow> casDelete k (doc_rev saved)) s1 of
                  (Inl e, s2) \<Rightarrow> (Inl e, n1\<lparr>db := s2\<rparr>)
                | (Inr _, s2) \<Rightarrow> (Inl replication_conflict, n1\<lparr>db := s2\<rparr>))
          else (Inr saved, n1\<lparr>db := s1\<rparr>))"
  by (simp add: docsRouter_post_fn_def transaction_handle_def on_db_def bind_def return_def
      throw_def load_current stored_rev_def Let_def
      split: prod.split sum.split option.split)

lemma post_fn_mutexes:
  "mutexes (snd (docsRouter_post_fn u_rev peers fetch incoming k (transaction_handle ieee k) n1)) =
     mutexes n1"
  by (simp add: post_fn_eq split: prod.split sum.split option.split)

lemma post_fn_other_keys:
  assumes "k' \<noteq> k"
  shows "db (snd (docsRouter_post_fn u_rev peers fetch incoming k (transaction_handle ieee k) n1)) k' =
           db n1 k'"
proof -
  obtain r s1 where p: "casPut ieee k u_rev (incoming\<lparr>in_id := Some k\<rparr>) (db n1) = (r, s1)"
    by (cases "casPut ieee k u_rev (incoming\<lparr>in_id := Some k\<rparr>) (db n1)")
  have s1: "s1 k' = db n1 k'"
    using casPut_other_keys [OF assms, of ieee u_rev "incoming\<lparr>in_id := Some k\<rparr>" "db n1"] p
    by simp
  show ?thesis
  proof (cases r)
    case (Inl e)
    with p s1 show ?thesis by (simp add: post_fn_eq)
  next
    case (Inr saved)
    define rb where "rb = (case current (db n1) k of
                           Some p \<Rightarrow> casReplace k p (doc_rev saved)
                         | None \<Rightarrow> casDelete k (doc_rev saved))"
    obtain r2 s2 where q: "rb s1 = (r2, s2)" by (cases "rb s1")
    have "snd (rb s1) k' = s1 k'"
      using assms by (simp add: rb_def casReplace_other_keys casDelete_other_keys
          split: option.split)
    with q have s2: "s2 k' = db n1 k'" by (simp add: s1)
    have "docsRouter_post_fn u_rev peers fetch incoming k (transaction_handle ieee k) n1 =
        (if conflicts (pushToPeers peers fetch
              (ReplicatePut (doc_id saved) (stored_rev (db n1) k) (doc_rev saved) saved)) \<noteq> []
         then (case rb s1 of
                 (Inl e, s2) \<Rightarrow> (Inl e, n1\<lparr>db := s2\<rparr>)
               | (Inr _, s2) \<Rightarrow> (Inl replication_conflict, n1\<lparr>db := s2\<rparr>))
         else (Inr saved, n1\<lparr>db := s1\<rparr>))"
      using p Inr by (simp add: post_fn_eq rb_def)
    then show ?thesis using q s1 s2 by (simp split: sum.split)
  qed
qed

lemma post_other_keys:
  assumes "k' \<noteq> or_else (in_id incoming) u_id"
  shows "db (snd (docsRouter_post ieee u_id u_rev peers fetch incoming n)) k' = db n k'"
proof -
  define k where "k = or_else (in_id incoming) u_id"
  define fn where "fn = docsRouter_post_fn u_rev peers fetch incoming k"
  have post: "db (snd (docsRouter_post ieee u_id u_rev peers fetch incoming n)) =
              db (snd (withDocTransaction ieee k fn n))"
    by (simp add: docsRouter_post_def Let_def k_def fn_def
        split: prod.split option.split sum.split)
  show ?thesis
  proof (cases "locked_at n k")
    case True
    then show ?thesis using transaction_waits(2) [OF True, of ieee fn] by (simp add: post)
  next
    case False
    have "k' \<noteq> k" using assms by (simp add: k_def)
    then have "db (snd (fn (transaction_handle ieee k) (snd (acquire_mutex k n)))) k' =
          db (snd (acquire_mutex k n)) k'"
      unfolding fn_def by (rule post_fn_other_keys)
    then have "db (snd (fn (transaction_handle ieee k) (snd (acquire_mutex k n)))) k' = db n k'"
      by (simp add: acquire_mutex_free(3) [OF False])
    then show ?thesis by (simp add: post transaction_runs [OF False] release_mutex_db)
  qed
qed



text \<open>
  One step of the engine on the store, run under the mutex of a key that is free, gives the
  result and the store of the step. This is how the plain operations \<^verbatim>\<open>put\<close>, \<^verbatim>\<open>del\<close>,
  \<^verbatim>\<open>applyRemotePut\<close> and \<^verbatim>\<open>applyRemoteDel\<close> run.
\<close>

lemma step_under_mutex:
  assumes "\<not> locked_at n k"
  shows "fst (withDocTransaction ieee k (\<lambda>tx. on_db step) n) = Some (fst (step (db n)))"
    "db (snd (withDocTransaction ieee k (\<lambda>tx. on_db step) n)) = snd (step (db n))"
  by (simp_all add: transaction_runs [OF assms] release_mutex_db on_db_result
      acquire_mutex_free(3) [OF assms])

text \<open>The generations that a sequence of local writes and reads of one key assigns.\<close>

lemma counts_from_after_write:
  assumes "m \<le> 2 ^ 53" "doc_rev d = Some (dec_digits m @ CHR ''-'' # h)"
  shows "counts_from (s(k \<mapsto> Encoded d)) k = Some m"
  using assms
  by (simp add: counts_from_def stored_rev_upd rev_prefix_digits_dash Number_dec_digits)

lemma nextRev_counts_from:
  assumes "counts_from s k = Some g" "g < 2 ^ 53"
  shows "nextRev ieee u (stored_rev s k) = dec_digits (g + 1) @ CHR ''-'' # take 8 u"
proof (cases "stored_rev s k")
  case None
  then have "g = 0" using assms(1) by (simp add: counts_from_def)
  then show ?thesis using None by (simp add: nextRev_def dec_digits_small)
next
  case (Some r)
  show ?thesis
  proof (cases "rev_prefix r")
    case None
    then have "g = 0" using assms(1) Some by (simp add: counts_from_def)
    then show ?thesis using None Some by (simp add: nextRev_prefix_cases dec_digits_small)
  next
    case pre: (Some pre)
    show ?thesis
      using assms Some pre
      by (cases "Number pre")
        (simp_all add: counts_from_def nextRev_prefix_cases dec_digits_small plus_one_def)
  qed
qed

lemma casPut_counts:
  assumes "casPut ieee k u input s = (Inr d, s')"
    and "counts_from s k = Some g" "g < 2 ^ 53"
  shows "rev_generation (doc_rev d) = Some (g + 1) \<and> counts_from s' k = Some (g + 1)"
proof -
  from casPut_success [OF assms(1)]
  have d: "d = next_doc ieee k u input s" and s': "s' = s(k \<mapsto> Encoded d)" by simp_all
  have r: "doc_rev d = Some (dec_digits (g + 1) @ CHR ''-'' # take 8 u)"
    by (simp add: d next_doc_rev nextRev_counts_from [OF assms(2,3)])
  have "g + 1 \<le> 2 ^ 53" using assms(3) by simp
  from counts_from_after_write [OF this r]
  show ?thesis by (simp add: s' r rev_generation_def generation_digits_dash)
qed

lemma writes_count_up:
  assumes "k \<noteq> []"
  shows "list_all write_or_read ops \<Longrightarrow> counts_from s k = Some g \<Longrightarrow>
         g + length ops < 2 ^ 53 \<Longrightarrow>
         map rev_generation (assigned_revs ieee k ops s) =
           map Some [g + 1 ..< g + 1 + length (assigned_revs ieee k ops s)]"
proof (induction ops arbitrary: s g)
  case Nil
  then show ?case by simp
next
  case (Cons op ops)
  have rest: "list_all write_or_read ops" using Cons.prems(1) by simp
  have len: "g + length ops < 2 ^ 53" using Cons.prems(3) by simp
  consider (a_read) "op = Get"
    | (a_write) u input where
        "\<And>s. assigned_revs ieee k (op # ops) s =
          (case casPut ieee k u input s of
             (Inr d, s') \<Rightarrow> doc_rev d # assigned_revs ieee k ops s'
           | (Inl e, s') \<Rightarrow> assigned_revs ieee k ops s')"
    using Cons.prems(1) by (cases op) (auto simp: plain_put_at_key [OF assms])
  then show ?case
  proof cases
    case a_read
    then show ?thesis
      using Cons.IH [OF rest Cons.prems(2) len] by (simp add: get_def load_current)
  next
    case (a_write u input)
    note w = a_write
    obtain r s' where c: "casPut ieee k u input s = (r, s')" by (cases "casPut ieee k u input s")
    show ?thesis
    proof (cases r)
      case (Inl e)
      then have "s' = s" using c casPut_failure by blast
      then show ?thesis
        using Cons.IH [OF rest Cons.prems(2) len] c Inl by (simp add: w)
    next
      case (Inr d)
      have g: "g < 2 ^ 53" using Cons.prems(3) by simp
      from casPut_counts [OF c [unfolded Inr] Cons.prems(2) g]
      have d: "rev_generation (doc_rev d) = Some (g + 1)"
        and s': "counts_from s' k = Some (g + 1)" by simp_all
      have "g + 1 + length ops < 2 ^ 53" using Cons.prems(3) by simp
      from Cons.IH [OF rest s' this]
      have "map rev_generation (assigned_revs ieee k ops s') =
             map Some [g + 1 + 1 ..< g + 1 + 1 + length (assigned_revs ieee k ops s')]" .
      then show ?thesis
        using c Inr d by (simp add: w upt_conv_Cons del: upt_Suc)
    qed
  qed
qed

lemmas run_eval = put_casPut casPut_eq casReplace_eq casDelete_eq del_def db_del_def get_def
  load_current rev_generation_def generation_def rev_prefix_def


section \<open>The claims\<close>




text \<open>
  \<^bold>\<open>C2.\<close> The plain \<^verbatim>\<open>put\<close> (and \<^verbatim>\<open>tx.put\<close>, which does the same on the key of its
  transaction) throws a 409 conflict and leaves the store unchanged unless its precondition
  holds: if a document exists under \<^verbatim>\<open>_id\<close> then \<^verbatim>\<open>input._rev\<close> is a non-empty string
  equal to that document's \<^verbatim>\<open>_rev\<close>, and if none exists then \<^verbatim>\<open>input._rev\<close> is absent or
  empty. When it holds, \<^verbatim>\<open>put\<close> stores and returns the key-wise merge of the existing
  document and the input, the input winning, with \<^verbatim>\<open>_id\<close> the key and \<^verbatim>\<open>_rev\<close> the
  \<^verbatim>\<open>nextRev\<close> of the existing revision.
\<close>

theorem put_contract:
  assumes "k = or_else (in_id input) u_id"
  shows "(cas_precondition (current s k) input \<longrightarrow>
            (\<exists>d. put ieee u_id u_rev input s = (Inr d, s(k \<mapsto> Encoded d)) \<and>
                 doc_id d = k \<and>
                 doc_rev d = Some (nextRev ieee u_rev (stored_rev s k)) \<and>
                 (\<forall>a. doc_fields d a =
                        (case in_fields input a of
                           Some v \<Rightarrow> Some v
                         | None \<Rightarrow> (case current s k of None \<Rightarrow> None | Some e \<Rightarrow> doc_fields e a))))) \<and>
         (\<not> cas_precondition (current s k) input \<longrightarrow>
            (\<exists>e. put ieee u_id u_rev input s = (Inl e, s) \<and> status e = Some 409)) \<and>
         casPut ieee k u_rev input s = put ieee u_id u_rev input s"
proof (intro conjI impI)
  assume "cas_precondition (current s k) input"
  then have "put ieee u_id u_rev input s =
      (Inr (next_doc ieee k u_rev input s), s(k \<mapsto> Encoded (next_doc ieee k u_rev input s)))"
    by (auto simp: put_casPut assms [symmetric] casPut_eq cas_precondition_code split: option.splits)
  then show "\<exists>d. put ieee u_id u_rev input s = (Inr d, s(k \<mapsto> Encoded d)) \<and>
                 doc_id d = k \<and>
                 doc_rev d = Some (nextRev ieee u_rev (stored_rev s k)) \<and>
                 (\<forall>a. doc_fields d a =
                        (case in_fields input a of
                           Some v \<Rightarrow> Some v
                         | None \<Rightarrow> (case current s k of None \<Rightarrow> None | Some e \<Rightarrow> doc_fields e a)))"
    using next_doc_fields [of ieee k u_rev input s]
    by (simp add: next_doc_id next_doc_rev)
next
  assume "\<not> cas_precondition (current s k) input"
  then show "\<exists>e. put ieee u_id u_rev input s = (Inl e, s) \<and> status e = Some 409"
    by (auto simp: put_casPut assms [symmetric] casPut_eq cas_precondition_code
        conflict_mismatch_def conflict_missing_def split: option.splits)
next
  show "casPut ieee k u_rev input s = put ieee u_id u_rev input s"
    by (simp add: put_casPut assms)
qed

theorem put_contract_witness:
  "''a'' = or_else (Some ''a'') ''0123abcd-aaaa-4bbb-8ccc-dddddddddddd'' \<and>
   cas_precondition (current (Map.empty :: nat store) ''a'')
     \<lparr> in_id = Some ''a'', in_rev = Some [], in_fields = [''t'' \<mapsto> 1] \<rparr> \<and>
   put (\<lambda>t. t) ''0123abcd-aaaa-4bbb-8ccc-dddddddddddd'' ''89abcdef-aaaa-4bbb-8ccc-dddddddddddd''
     \<lparr> in_id = Some ''a'', in_rev = Some [], in_fields = [''t'' \<mapsto> 1] \<rparr> (Map.empty :: nat store) =
     (Inr \<lparr> doc_id = ''a'', doc_rev = Some ''1-89abcdef'', doc_fields = [''t'' \<mapsto> 1] \<rparr>,
      [''a'' \<mapsto> Encoded \<lparr> doc_id = ''a'', doc_rev = Some ''1-89abcdef'', doc_fields = [''t'' \<mapsto> 1] \<rparr>]) \<and>
   \<not> cas_precondition (current (Map.empty :: nat store) ''a'')
     \<lparr> in_id = Some ''a'', in_rev = Some ''1-aaaaaaaa'', in_fields = [''t'' \<mapsto> 1] \<rparr> \<and>
   put (\<lambda>t. t) ''0123abcd-aaaa-4bbb-8ccc-dddddddddddd'' ''89abcdef-aaaa-4bbb-8ccc-dddddddddddd''
     \<lparr> in_id = Some ''a'', in_rev = Some ''1-aaaaaaaa'', in_fields = [''t'' \<mapsto> 1] \<rparr>
     (Map.empty :: nat store) = (Inl conflict_missing, Map.empty)"
  using put_contract [where k = "''a''" and u_id = "''0123abcd-aaaa-4bbb-8ccc-dddddddddddd''"
      and u_rev = "''89abcdef-aaaa-4bbb-8ccc-dddddddddddd''" and ieee = "\<lambda>t. t"
      and s = "Map.empty :: nat store"
      and input = "\<lparr> in_id = Some ''a'', in_rev = Some [], in_fields = [''t'' \<mapsto> 1] \<rparr>"]
    put_contract [where k = "''a''" and u_id = "''0123abcd-aaaa-4bbb-8ccc-dddddddddddd''"
      and u_rev = "''89abcdef-aaaa-4bbb-8ccc-dddddddddddd''" and ieee = "\<lambda>t. t"
      and s = "Map.empty :: nat store"
      and input = "\<lparr> in_id = Some ''a'', in_rev = Some ''1-aaaaaaaa'', in_fields = [''t'' \<mapsto> 1] \<rparr>"]
  by (simp add: put_casPut casPut_eq cas_precondition_def eval_defs)

text \<open>
  As stated, with \<^verbatim>\<open>input._rev\<close> having to be absent when no document exists, C2 fails: a
  \<^verbatim>\<open>put\<close> whose \<^verbatim>\<open>_rev\<close> is the empty string creates the document.
\<close>

theorem put_empty_rev_counterexample:
  "\<not> stated_precondition (current (Map.empty :: nat store) ''a'')
       \<lparr> in_id = Some ''a'', in_rev = Some [], in_fields = [''t'' \<mapsto> 1] \<rparr> \<and>
   put (\<lambda>t. t) ''0123abcd-aaaa-4bbb-8ccc-dddddddddddd'' ''89abcdef-aaaa-4bbb-8ccc-dddddddddddd''
     \<lparr> in_id = Some ''a'', in_rev = Some [], in_fields = [''t'' \<mapsto> 1] \<rparr> (Map.empty :: nat store) =
     (Inr \<lparr> doc_id = ''a'', doc_rev = Some ''1-89abcdef'', doc_fields = [''t'' \<mapsto> 1] \<rparr>,
      [''a'' \<mapsto> Encoded \<lparr> doc_id = ''a'', doc_rev = Some ''1-89abcdef'', doc_fields = [''t'' \<mapsto> 1] \<rparr>])"
  by (simp add: put_casPut casPut_eq stated_precondition_def eval_defs)

text \<open>
  \<^bold>\<open>C3.\<close> \<^verbatim>\<open>applyRemotePut(doc, prevRev)\<close> throws the 400 error when \<^verbatim>\<open>doc._rev\<close> is
  absent or empty. Otherwise, when the stored \<^verbatim>\<open>_rev\<close> of \<^verbatim>\<open>doc._id\<close> matches
  \<^verbatim>\<open>prevRev\<close>, an empty string counting as absent, it stores and returns \<^verbatim>\<open>doc\<close> as it is,
  with the revision that \<^verbatim>\<open>doc\<close> carries; and when they do not match it throws the 409
  conflict and leaves the store unchanged.
\<close>

theorem applyRemotePut_contract:
  "(\<not> truthy (doc_rev doc) \<longrightarrow>
      applyRemotePut doc prevRev s = (Inl invalid_remote_put, s) \<and>
      status invalid_remote_put = Some 400) \<and>
   (truthy (doc_rev doc) \<and> revs_match (stored_rev s (doc_id doc)) prevRev \<longrightarrow>
      applyRemotePut doc prevRev s = (Inr doc, s(doc_id doc \<mapsto> Encoded doc))) \<and>
   (truthy (doc_rev doc) \<and> \<not> revs_match (stored_rev s (doc_id doc)) prevRev \<longrightarrow>
      applyRemotePut doc prevRev s = (Inl conflict_mismatch, s) \<and>
      status conflict_mismatch = Some 409)"
  by (simp add: applyRemotePut_eq revs_match_code invalid_remote_put_def conflict_mismatch_def)

theorem applyRemotePut_contract_witness:
  "\<not> truthy (doc_rev \<lparr> doc_id = ''a'', doc_rev = Some [], doc_fields = (Map.empty :: string \<rightharpoonup> nat) \<rparr>) \<and>
   applyRemotePut \<lparr> doc_id = ''a'', doc_rev = Some [], doc_fields = (Map.empty :: string \<rightharpoonup> nat) \<rparr>
     None Map.empty = (Inl invalid_remote_put, Map.empty) \<and>
   truthy (Some ''2-bbbbbbbb'') \<and>
   revs_match
     (stored_rev [''a'' \<mapsto> Encoded \<lparr> doc_id = ''a'', doc_rev = Some ''1-aaaaaaaa'',
                                    doc_fields = (Map.empty :: string \<rightharpoonup> nat) \<rparr>] ''a'')
     (Some ''1-aaaaaaaa'') \<and>
   applyRemotePut \<lparr> doc_id = ''a'', doc_rev = Some ''2-bbbbbbbb'', doc_fields = Map.empty \<rparr>
     (Some ''1-aaaaaaaa'')
     [''a'' \<mapsto> Encoded \<lparr> doc_id = ''a'', doc_rev = Some ''1-aaaaaaaa'',
                         doc_fields = (Map.empty :: string \<rightharpoonup> nat) \<rparr>] =
     (Inr \<lparr> doc_id = ''a'', doc_rev = Some ''2-bbbbbbbb'', doc_fields = Map.empty \<rparr>,
      [''a'' \<mapsto> Encoded \<lparr> doc_id = ''a'', doc_rev = Some ''2-bbbbbbbb'', doc_fields = Map.empty \<rparr>]) \<and>
   \<not> revs_match (stored_rev (Map.empty :: nat store) ''a'') (Some ''1-aaaaaaaa'') \<and>
   applyRemotePut \<lparr> doc_id = ''a'', doc_rev = Some ''2-bbbbbbbb'', doc_fields = Map.empty \<rparr>
     (Some ''1-aaaaaaaa'') (Map.empty :: nat store) = (Inl conflict_mismatch, Map.empty)"
  using applyRemotePut_contract [where doc = "\<lparr> doc_id = ''a'', doc_rev = Some [], doc_fields = (Map.empty :: string \<rightharpoonup> nat) \<rparr>"
      and prevRev = None and s = Map.empty]
    applyRemotePut_contract [where doc = "\<lparr> doc_id = ''a'', doc_rev = Some ''2-bbbbbbbb'', doc_fields = (Map.empty :: string \<rightharpoonup> nat) \<rparr>"
      and prevRev = "Some ''1-aaaaaaaa''"
      and s = "[''a'' \<mapsto> Encoded \<lparr> doc_id = ''a'', doc_rev = Some ''1-aaaaaaaa'', doc_fields = Map.empty \<rparr>]"]
    applyRemotePut_contract [where doc = "\<lparr> doc_id = ''a'', doc_rev = Some ''2-bbbbbbbb'', doc_fields = (Map.empty :: string \<rightharpoonup> nat) \<rparr>"
      and prevRev = "Some ''1-aaaaaaaa''" and s = Map.empty]
  by (simp add: revs_match_def eval_defs)

text \<open>
  As stated, with success only when the stored \<^verbatim>\<open>_rev\<close> equals \<^verbatim>\<open>prevRev\<close>, C3 fails:
  with no document stored, an empty \<^verbatim>\<open>prevRev\<close> is accepted.
\<close>

theorem applyRemotePut_empty_prevRev_counterexample:
  "stored_rev (Map.empty :: nat store) ''a'' \<noteq> Some [] \<and>
   applyRemotePut \<lparr> doc_id = ''a'', doc_rev = Some ''1-aaaaaaaa'', doc_fields = Map.empty \<rparr>
     (Some []) (Map.empty :: nat store) =
     (Inr \<lparr> doc_id = ''a'', doc_rev = Some ''1-aaaaaaaa'', doc_fields = Map.empty \<rparr>,
      [''a'' \<mapsto> Encoded \<lparr> doc_id = ''a'', doc_rev = Some ''1-aaaaaaaa'', doc_fields = Map.empty \<rparr>])"
  by (simp add: applyRemotePut_eq eval_defs)

text \<open>
  \<^bold>\<open>C4.\<close> Take a non-empty key whose next local write counts from generation \<open>g\<close>: the
  engine reads no document under it, or one whose revision has no prefix or a prefix that is
  no finite number (\<open>g = 0\<close>), or one whose prefix denotes the natural number \<open>g\<close>. Take
  a sequence of local writes to it (plain \<^verbatim>\<open>put\<close> or \<^verbatim>\<open>tx.put\<close>, failed ones among them)
  with only reads of that key in between: no \<^verbatim>\<open>del\<close>, \<^verbatim>\<open>tx.del\<close>, \<^verbatim>\<open>tx.replaceExact\<close> or
  remote apply. While the generations stay below \<open>2\<^sup>5\<^sup>3\<close>, the successful writes are
  assigned the generations \<open>g + 1\<close>, \<open>g + 2\<close>, ... in order, each strictly greater than the
  one before.
\<close>

theorem local_writes_count_up:
  assumes "k \<noteq> []" and "list_all write_or_read ops"
    and "counts_from s k = Some g" and "g + length ops < 2 ^ 53"
  shows "map rev_generation (assigned_revs ieee k ops s) =
           map Some [g + 1 ..< g + 1 + length (assigned_revs ieee k ops s)] \<and>
         sorted_wrt (\<lambda>a b. \<exists>m n. a = Some m \<and> b = Some n \<and> m < n)
           (map rev_generation (assigned_revs ieee k ops s))"
proof -
  have e: "map rev_generation (assigned_revs ieee k ops s) =
           map Some [g + 1 ..< g + 1 + length (assigned_revs ieee k ops s)]"
    using assms by (rule writes_count_up)
  have srt: "sorted_wrt (\<lambda>a b. \<exists>m n. a = Some m \<and> b = Some n \<and> m < n) (map Some [i ..< j])"
    for i j :: nat
    by (simp add: sorted_wrt_map)
  have "sorted_wrt (\<lambda>a b. \<exists>m n. a = Some m \<and> b = Some n \<and> m < n)
           (map rev_generation (assigned_revs ieee k ops s))"
    by (subst e) (rule srt)
  with e show ?thesis by (rule conjI)
qed

theorem local_writes_count_up_witness:
  "''a'' \<noteq> [] \<and>
   list_all write_or_read
     [PlainPut ''0123abcd-aaaa-4bbb-8ccc-dddddddddddd'' ''89abcdef-aaaa-4bbb-8ccc-dddddddddddd'' \<lparr> in_id = None, in_rev = Some ''draft'', in_fields = [''t'' \<mapsto> (1::nat)] \<rparr>,
      Get,
      TxPut ''fedcba98-aaaa-4bbb-8ccc-dddddddddddd'' \<lparr> in_id = None, in_rev = Some ''1-89abcdef'', in_fields = [''t'' \<mapsto> (2::nat)] \<rparr>,
      TxPut ''0123abcd-aaaa-4bbb-8ccc-dddddddddddd'' \<lparr> in_id = None, in_rev = Some ''1-89abcdef'', in_fields = [''t'' \<mapsto> (3::nat)] \<rparr>] \<and>
   counts_from [''a'' \<mapsto> Encoded \<lparr> doc_id = ''a'', doc_rev = Some ''draft'', doc_fields = [''t'' \<mapsto> (0::nat)] \<rparr>] ''a'' = Some 0 \<and>
   0 + length
     [PlainPut ''0123abcd-aaaa-4bbb-8ccc-dddddddddddd'' ''89abcdef-aaaa-4bbb-8ccc-dddddddddddd'' \<lparr> in_id = None, in_rev = Some ''draft'', in_fields = [''t'' \<mapsto> (1::nat)] \<rparr>,
      Get,
      TxPut ''fedcba98-aaaa-4bbb-8ccc-dddddddddddd'' \<lparr> in_id = None, in_rev = Some ''1-89abcdef'', in_fields = [''t'' \<mapsto> (2::nat)] \<rparr>,
      TxPut ''0123abcd-aaaa-4bbb-8ccc-dddddddddddd'' \<lparr> in_id = None, in_rev = Some ''1-89abcdef'', in_fields = [''t'' \<mapsto> (3::nat)] \<rparr>] < (2::nat) ^ 53 \<and>
   assigned_revs (\<lambda>t. t) ''a''
     [PlainPut ''0123abcd-aaaa-4bbb-8ccc-dddddddddddd'' ''89abcdef-aaaa-4bbb-8ccc-dddddddddddd'' \<lparr> in_id = None, in_rev = Some ''draft'', in_fields = [''t'' \<mapsto> (1::nat)] \<rparr>,
      Get,
      TxPut ''fedcba98-aaaa-4bbb-8ccc-dddddddddddd'' \<lparr> in_id = None, in_rev = Some ''1-89abcdef'', in_fields = [''t'' \<mapsto> (2::nat)] \<rparr>,
      TxPut ''0123abcd-aaaa-4bbb-8ccc-dddddddddddd'' \<lparr> in_id = None, in_rev = Some ''1-89abcdef'', in_fields = [''t'' \<mapsto> (3::nat)] \<rparr>]
     [''a'' \<mapsto> Encoded \<lparr> doc_id = ''a'', doc_rev = Some ''draft'', doc_fields = [''t'' \<mapsto> (0::nat)] \<rparr>] = [Some ''1-89abcdef'', Some ''2-fedcba98''] \<and>
   map rev_generation [Some ''1-89abcdef'', Some ''2-fedcba98''] = [Some 1, Some 2]"
proof -
  have e: "assigned_revs (\<lambda>t. t) ''a''
     [PlainPut ''0123abcd-aaaa-4bbb-8ccc-dddddddddddd'' ''89abcdef-aaaa-4bbb-8ccc-dddddddddddd'' \<lparr> in_id = None, in_rev = Some ''draft'', in_fields = [''t'' \<mapsto> (1::nat)] \<rparr>,
      Get,
      TxPut ''fedcba98-aaaa-4bbb-8ccc-dddddddddddd'' \<lparr> in_id = None, in_rev = Some ''1-89abcdef'', in_fields = [''t'' \<mapsto> (2::nat)] \<rparr>,
      TxPut ''0123abcd-aaaa-4bbb-8ccc-dddddddddddd'' \<lparr> in_id = None, in_rev = Some ''1-89abcdef'', in_fields = [''t'' \<mapsto> (3::nat)] \<rparr>]
     [''a'' \<mapsto> Encoded \<lparr> doc_id = ''a'', doc_rev = Some ''draft'', doc_fields = [''t'' \<mapsto> (0::nat)] \<rparr>] = [Some ''1-89abcdef'', Some ''2-fedcba98'']"
    by (simp add: run_eval eval_defs num_defs dec_eval)
  have h1: "''a'' \<noteq> []" by simp
  have h2: "list_all write_or_read
     [PlainPut ''0123abcd-aaaa-4bbb-8ccc-dddddddddddd'' ''89abcdef-aaaa-4bbb-8ccc-dddddddddddd'' \<lparr> in_id = None, in_rev = Some ''draft'', in_fields = [''t'' \<mapsto> (1::nat)] \<rparr>,
      Get,
      TxPut ''fedcba98-aaaa-4bbb-8ccc-dddddddddddd'' \<lparr> in_id = None, in_rev = Some ''1-89abcdef'', in_fields = [''t'' \<mapsto> (2::nat)] \<rparr>,
      TxPut ''0123abcd-aaaa-4bbb-8ccc-dddddddddddd'' \<lparr> in_id = None, in_rev = Some ''1-89abcdef'', in_fields = [''t'' \<mapsto> (3::nat)] \<rparr>]" by simp
  have h3: "counts_from [''a'' \<mapsto> Encoded \<lparr> doc_id = ''a'', doc_rev = Some ''draft'', doc_fields = [''t'' \<mapsto> (0::nat)] \<rparr>] ''a'' = Some 0"
    by (simp add: counts_from_def stored_rev_def rev_of_def current_def rev_prefix_def)
  have h4: "0 + length
     [PlainPut ''0123abcd-aaaa-4bbb-8ccc-dddddddddddd'' ''89abcdef-aaaa-4bbb-8ccc-dddddddddddd'' \<lparr> in_id = None, in_rev = Some ''draft'', in_fields = [''t'' \<mapsto> (1::nat)] \<rparr>,
      Get,
      TxPut ''fedcba98-aaaa-4bbb-8ccc-dddddddddddd'' \<lparr> in_id = None, in_rev = Some ''1-89abcdef'', in_fields = [''t'' \<mapsto> (2::nat)] \<rparr>,
      TxPut ''0123abcd-aaaa-4bbb-8ccc-dddddddddddd'' \<lparr> in_id = None, in_rev = Some ''1-89abcdef'', in_fields = [''t'' \<mapsto> (3::nat)] \<rparr>] < (2::nat) ^ 53" by simp
  have "map rev_generation [Some ''1-89abcdef'', Some ''2-fedcba98''] = map Some [0 + 1 ..< 0 + 1 + 2]"
    using local_writes_count_up [OF h1 h2 h3 h4, of "\<lambda>t. t"] unfolding e by simp
  then have c: "map rev_generation [Some ''1-89abcdef'', Some ''2-fedcba98''] = [Some 1, Some 2]"
    by (simp add: upt_conv_Cons)
  show ?thesis by (intro conjI h1 h2 h3 h4 e c)
qed

text \<open>
  As stated, with any other operations in between, C4 fails. After a delete the next write
  starts again at generation 1, the generation of the write before the delete. After the
  rollback of a write by \<^verbatim>\<open>tx.replaceExact\<close>, as the handlers do it when a peer answers 409,
  the next write is assigned the generation of the write that was rolled back. And at
  generation \<open>2\<^sup>5\<^sup>3\<close> two local writes in a row are assigned the same generation.
\<close>

theorem interleaved_operations_counterexample:
  "assigned_revs (\<lambda>t. t) ''a''
     [PlainPut ''0123abcd-aaaa-4bbb-8ccc-dddddddddddd'' ''89abcdef-aaaa-4bbb-8ccc-dddddddddddd'' \<lparr> in_id = None, in_rev = None, in_fields = [''t'' \<mapsto> (1::nat)] \<rparr>,
      Delete,
      PlainPut ''0123abcd-aaaa-4bbb-8ccc-dddddddddddd'' ''fedcba98-aaaa-4bbb-8ccc-dddddddddddd'' \<lparr> in_id = None, in_rev = None, in_fields = [''t'' \<mapsto> (1::nat)] \<rparr>]
     Map.empty = [Some ''1-89abcdef'', Some ''1-fedcba98''] \<and>
   rev_generation (Some ''1-89abcdef'') = Some 1 \<and>
   rev_generation (Some ''1-fedcba98'') = Some 1 \<and>
   assigned_revs (\<lambda>t. t) ''a''
     [TxPut ''89abcdef-aaaa-4bbb-8ccc-dddddddddddd'' \<lparr> in_id = None, in_rev = Some ''1-aaaaaaaa'', in_fields = [''t'' \<mapsto> (2::nat)] \<rparr>,
      TxReplaceExact \<lparr> doc_id = ''a'', doc_rev = Some ''1-aaaaaaaa'', doc_fields = [''t'' \<mapsto> (1::nat)] \<rparr>
        (Some ''2-89abcdef''),
      TxPut ''fedcba98-aaaa-4bbb-8ccc-dddddddddddd'' \<lparr> in_id = None, in_rev = Some ''1-aaaaaaaa'', in_fields = [''t'' \<mapsto> (3::nat)] \<rparr>]
     [''a'' \<mapsto> Encoded \<lparr> doc_id = ''a'', doc_rev = Some ''1-aaaaaaaa'', doc_fields = [''t'' \<mapsto> (1::nat)] \<rparr>] =
     [Some ''2-89abcdef'', Some ''2-fedcba98''] \<and>
   rev_generation (Some ''2-89abcdef'') = Some 2 \<and>
   rev_generation (Some ''2-fedcba98'') = Some 2 \<and>
   assigned_revs (\<lambda>t. t) ''a''
     [TxPut ''89abcdef-aaaa-4bbb-8ccc-dddddddddddd'' \<lparr> in_id = None, in_rev = Some ''9007199254740991-aaaaaaaa'', in_fields = [''t'' \<mapsto> (2::nat)] \<rparr>,
      TxPut ''fedcba98-aaaa-4bbb-8ccc-dddddddddddd'' \<lparr> in_id = None, in_rev = Some ''9007199254740992-89abcdef'', in_fields = [''t'' \<mapsto> (3::nat)] \<rparr>]
     [''a'' \<mapsto> Encoded \<lparr> doc_id = ''a'', doc_rev = Some ''9007199254740991-aaaaaaaa'', doc_fields = [''t'' \<mapsto> (1::nat)] \<rparr>] =
     [Some ''9007199254740992-89abcdef'', Some ''9007199254740992-fedcba98''] \<and>
   rev_generation (Some ''9007199254740992-89abcdef'') = Some 9007199254740992 \<and>
   rev_generation (Some ''9007199254740992-fedcba98'') = Some 9007199254740992"
  by (simp add: run_eval eval_defs num_defs dec_eval)

text \<open>
  \<^bold>\<open>C5.\<close> After a completed \<^verbatim>\<open>put\<close>, \<^verbatim>\<open>tx.put\<close>, \<^verbatim>\<open>tx.replaceExact\<close> or
  \<^verbatim>\<open>applyRemotePut\<close> the document stored under the key has the key as its \<^verbatim>\<open>_id\<close>. After
  \<^verbatim>\<open>put\<close> and \<^verbatim>\<open>tx.put\<close> its \<^verbatim>\<open>_rev\<close> is the \<^verbatim>\<open>nextRev\<close> of the revision stored before,
  which is well formed when the key held no document or one whose revision has a generation
  below \<open>2\<^sup>5\<^sup>3\<close>. After \<^verbatim>\<open>tx.replaceExact\<close> and \<^verbatim>\<open>applyRemotePut\<close> the stored document is
  the given one with its \<^verbatim>\<open>_rev\<close> as given, which for \<^verbatim>\<open>applyRemotePut\<close> is not empty.
\<close>

theorem stored_after_mutation:
  "(put ieee u_id u_rev input s = (Inr d, s') \<longrightarrow>
      s' (or_else (in_id input) u_id) = Some (Encoded d) \<and>
      doc_id d = or_else (in_id input) u_id \<and>
      doc_rev d = Some (nextRev ieee u_rev (stored_rev s (or_else (in_id input) u_id))) \<and>
      (is_uuidv4 u_rev \<and> current_generation s (or_else (in_id input) u_id) = Some g \<and>
       g < 2 ^ 53 \<longrightarrow> (\<exists>r. doc_rev d = Some r \<and> well_formed_rev r))) \<and>
   (casPut ieee k u_rev input s = (Inr d, s') \<longrightarrow>
      s' k = Some (Encoded d) \<and> doc_id d = k \<and>
      doc_rev d = Some (nextRev ieee u_rev (stored_rev s k)) \<and>
      (is_uuidv4 u_rev \<and> current_generation s k = Some g \<and> g < 2 ^ 53 \<longrightarrow>
         (\<exists>r. doc_rev d = Some r \<and> well_formed_rev r))) \<and>
   (casReplace k doc expected s = (Inr x, s') \<longrightarrow>
      s' k = Some (Encoded (doc\<lparr>doc_id := k\<rparr>))) \<and>
   (applyRemotePut doc prevRev s = (Inr d, s') \<longrightarrow>
      s' (doc_id doc) = Some (Encoded doc) \<and> truthy (doc_rev doc))"
proof -
  have cp: "\<And>k. casPut ieee k u_rev input s = (Inr d, s') \<Longrightarrow>
      s' k = Some (Encoded d) \<and> doc_id d = k \<and>
      doc_rev d = Some (nextRev ieee u_rev (stored_rev s k)) \<and>
      (is_uuidv4 u_rev \<and> current_generation s k = Some g \<and> g < 2 ^ 53 \<longrightarrow>
         (\<exists>r. doc_rev d = Some r \<and> well_formed_rev r))"
  proof -
    fix k assume a: "casPut ieee k u_rev input s = (Inr d, s')"
    from casPut_success [OF a]
    have d: "d = next_doc ieee k u_rev input s" and s': "s' = s(k \<mapsto> Encoded d)" by simp_all
    have wf: "\<exists>r. doc_rev d = Some r \<and> well_formed_rev r"
      if "is_uuidv4 u_rev" "current_generation s k = Some g" "g < 2 ^ 53"
    proof -
      have "length (take 8 u_rev) = 8" "list_all is_hex (take 8 u_rev)"
        using that(1) by (simp_all add: is_uuidv4_def)
      then have "well_formed_rev (dec_digits (g + 1) @ CHR ''-'' # take 8 u_rev)"
        by (intro well_formed_digits_dash) simp_all
      with casPut_assigns [OF a that(2,3)] show ?thesis by simp
    qed
    show "s' k = Some (Encoded d) \<and> doc_id d = k \<and>
      doc_rev d = Some (nextRev ieee u_rev (stored_rev s k)) \<and>
      (is_uuidv4 u_rev \<and> current_generation s k = Some g \<and> g < 2 ^ 53 \<longrightarrow>
         (\<exists>r. doc_rev d = Some r \<and> well_formed_rev r))"
      using wf by (simp add: s' d next_doc_id next_doc_rev)
  qed
  have rp: "casReplace k doc expected s = (Inr x, s') \<longrightarrow>
      s' k = Some (Encoded (doc\<lparr>doc_id := k\<rparr>))"
    by (auto simp: casReplace_eq split: if_splits)
  have ar: "applyRemotePut doc prevRev s = (Inr d, s') \<longrightarrow>
      s' (doc_id doc) = Some (Encoded doc) \<and> truthy (doc_rev doc)"
    by (auto simp: applyRemotePut_eq split: if_splits)
  show ?thesis
    unfolding put_casPut
    using cp [of "or_else (in_id input) u_id"] cp [of k] rp ar
    by blast
qed

theorem stored_after_mutation_witness:
  "put (\<lambda>t. t) ''0123abcd-aaaa-4bbb-8ccc-dddddddddddd'' ''89abcdef-aaaa-4bbb-8ccc-dddddddddddd''
     \<lparr> in_id = Some ''a'', in_rev = Some ''41-aaaaaaaa'', in_fields = [''t'' \<mapsto> (2::nat)] \<rparr>
     [''a'' \<mapsto> Encoded \<lparr> doc_id = ''a'', doc_rev = Some ''41-aaaaaaaa'', doc_fields = [''t'' \<mapsto> (1::nat)] \<rparr>] =
     (Inr \<lparr> doc_id = ''a'', doc_rev = Some ''42-89abcdef'', doc_fields = [''t'' \<mapsto> (2::nat)] \<rparr>,
      [''a'' \<mapsto> Encoded \<lparr> doc_id = ''a'', doc_rev = Some ''42-89abcdef'', doc_fields = [''t'' \<mapsto> (2::nat)] \<rparr>]) \<and>
   casPut (\<lambda>t. t) ''a'' ''89abcdef-aaaa-4bbb-8ccc-dddddddddddd''
     \<lparr> in_id = Some ''a'', in_rev = Some ''41-aaaaaaaa'', in_fields = [''t'' \<mapsto> (2::nat)] \<rparr>
     [''a'' \<mapsto> Encoded \<lparr> doc_id = ''a'', doc_rev = Some ''41-aaaaaaaa'', doc_fields = [''t'' \<mapsto> (1::nat)] \<rparr>] =
     (Inr \<lparr> doc_id = ''a'', doc_rev = Some ''42-89abcdef'', doc_fields = [''t'' \<mapsto> (2::nat)] \<rparr>,
      [''a'' \<mapsto> Encoded \<lparr> doc_id = ''a'', doc_rev = Some ''42-89abcdef'', doc_fields = [''t'' \<mapsto> (2::nat)] \<rparr>]) \<and>
   casReplace ''a'' \<lparr> doc_id = ''a'', doc_rev = Some ''42-89abcdef'', doc_fields = [''t'' \<mapsto> (2::nat)] \<rparr>
     (Some ''41-aaaaaaaa'')
     [''a'' \<mapsto> Encoded \<lparr> doc_id = ''a'', doc_rev = Some ''41-aaaaaaaa'', doc_fields = [''t'' \<mapsto> (1::nat)] \<rparr>] =
     (Inr (), [''a'' \<mapsto> Encoded \<lparr> doc_id = ''a'', doc_rev = Some ''42-89abcdef'', doc_fields = [''t'' \<mapsto> (2::nat)] \<rparr>]) \<and>
   applyRemotePut \<lparr> doc_id = ''a'', doc_rev = Some ''42-89abcdef'', doc_fields = [''t'' \<mapsto> (2::nat)] \<rparr>
     (Some ''41-aaaaaaaa'')
     [''a'' \<mapsto> Encoded \<lparr> doc_id = ''a'', doc_rev = Some ''41-aaaaaaaa'', doc_fields = [''t'' \<mapsto> (1::nat)] \<rparr>] =
     (Inr \<lparr> doc_id = ''a'', doc_rev = Some ''42-89abcdef'', doc_fields = [''t'' \<mapsto> (2::nat)] \<rparr>,
      [''a'' \<mapsto> Encoded \<lparr> doc_id = ''a'', doc_rev = Some ''42-89abcdef'', doc_fields = [''t'' \<mapsto> (2::nat)] \<rparr>]) \<and>
   is_uuidv4 ''89abcdef-aaaa-4bbb-8ccc-dddddddddddd'' \<and>
   current_generation
     [''a'' \<mapsto> Encoded \<lparr> doc_id = ''a'', doc_rev = Some ''41-aaaaaaaa'', doc_fields = [''t'' \<mapsto> (1::nat)] \<rparr>] ''a'' = Some 41 \<and>
   (41::nat) < 2 ^ 53 \<and>
   well_formed_rev ''42-89abcdef''"
proof -
  have e1: "put (\<lambda>t. t) ''0123abcd-aaaa-4bbb-8ccc-dddddddddddd'' ''89abcdef-aaaa-4bbb-8ccc-dddddddddddd''
     \<lparr> in_id = Some ''a'', in_rev = Some ''41-aaaaaaaa'', in_fields = [''t'' \<mapsto> (2::nat)] \<rparr>
     [''a'' \<mapsto> Encoded \<lparr> doc_id = ''a'', doc_rev = Some ''41-aaaaaaaa'', doc_fields = [''t'' \<mapsto> (1::nat)] \<rparr>] =
     (Inr \<lparr> doc_id = ''a'', doc_rev = Some ''42-89abcdef'', doc_fields = [''t'' \<mapsto> (2::nat)] \<rparr>,
      [''a'' \<mapsto> Encoded \<lparr> doc_id = ''a'', doc_rev = Some ''42-89abcdef'', doc_fields = [''t'' \<mapsto> (2::nat)] \<rparr>])"
    by (simp add: put_casPut casPut_eq eval_defs num_defs dec_eval)
  have e2: "casPut (\<lambda>t. t) ''a'' ''89abcdef-aaaa-4bbb-8ccc-dddddddddddd''
     \<lparr> in_id = Some ''a'', in_rev = Some ''41-aaaaaaaa'', in_fields = [''t'' \<mapsto> (2::nat)] \<rparr>
     [''a'' \<mapsto> Encoded \<lparr> doc_id = ''a'', doc_rev = Some ''41-aaaaaaaa'', doc_fields = [''t'' \<mapsto> (1::nat)] \<rparr>] =
     (Inr \<lparr> doc_id = ''a'', doc_rev = Some ''42-89abcdef'', doc_fields = [''t'' \<mapsto> (2::nat)] \<rparr>,
      [''a'' \<mapsto> Encoded \<lparr> doc_id = ''a'', doc_rev = Some ''42-89abcdef'', doc_fields = [''t'' \<mapsto> (2::nat)] \<rparr>])"
    by (simp add: casPut_eq eval_defs num_defs dec_eval)
  have e3: "casReplace ''a'' \<lparr> doc_id = ''a'', doc_rev = Some ''42-89abcdef'', doc_fields = [''t'' \<mapsto> (2::nat)] \<rparr>
     (Some ''41-aaaaaaaa'')
     [''a'' \<mapsto> Encoded \<lparr> doc_id = ''a'', doc_rev = Some ''41-aaaaaaaa'', doc_fields = [''t'' \<mapsto> (1::nat)] \<rparr>] =
     (Inr (), [''a'' \<mapsto> Encoded \<lparr> doc_id = ''a'', doc_rev = Some ''42-89abcdef'', doc_fields = [''t'' \<mapsto> (2::nat)] \<rparr>])"
    by (simp add: casReplace_eq eval_defs)
  have e4: "applyRemotePut \<lparr> doc_id = ''a'', doc_rev = Some ''42-89abcdef'', doc_fields = [''t'' \<mapsto> (2::nat)] \<rparr>
     (Some ''41-aaaaaaaa'')
     [''a'' \<mapsto> Encoded \<lparr> doc_id = ''a'', doc_rev = Some ''41-aaaaaaaa'', doc_fields = [''t'' \<mapsto> (1::nat)] \<rparr>] =
     (Inr \<lparr> doc_id = ''a'', doc_rev = Some ''42-89abcdef'', doc_fields = [''t'' \<mapsto> (2::nat)] \<rparr>,
      [''a'' \<mapsto> Encoded \<lparr> doc_id = ''a'', doc_rev = Some ''42-89abcdef'', doc_fields = [''t'' \<mapsto> (2::nat)] \<rparr>])"
    by (simp add: applyRemotePut_eq eval_defs)
  have h1: "is_uuidv4 ''89abcdef-aaaa-4bbb-8ccc-dddddddddddd''"
    by (simp add: is_uuidv4_def is_hex_def)
  have h2: "current_generation
     [''a'' \<mapsto> Encoded \<lparr> doc_id = ''a'', doc_rev = Some ''41-aaaaaaaa'', doc_fields = [''t'' \<mapsto> (1::nat)] \<rparr>] ''a'' = Some 41"
    by (simp add: wf_eval current_def)
  have h3: "(41::nat) < 2 ^ 53" by simp
  have "\<exists>r. doc_rev \<lparr> doc_id = ''a'', doc_rev = Some ''42-89abcdef'', doc_fields = [''t'' \<mapsto> (2::nat)] \<rparr> = Some r \<and>
          well_formed_rev r"
    using e2 h1 h2 h3
      stored_after_mutation [where ieee = "\<lambda>t. t" and u_id = "''0123abcd-aaaa-4bbb-8ccc-dddddddddddd''" and u_rev = "''89abcdef-aaaa-4bbb-8ccc-dddddddddddd''"
        and input = "\<lparr> in_id = Some ''a'', in_rev = Some ''41-aaaaaaaa'', in_fields = [''t'' \<mapsto> (2::nat)] \<rparr>"
        and s = "[''a'' \<mapsto> Encoded \<lparr> doc_id = ''a'', doc_rev = Some ''41-aaaaaaaa'', doc_fields = [''t'' \<mapsto> (1::nat)] \<rparr>]"
        and d = "\<lparr> doc_id = ''a'', doc_rev = Some ''42-89abcdef'', doc_fields = [''t'' \<mapsto> (2::nat)] \<rparr>"
        and s' = "[''a'' \<mapsto> Encoded \<lparr> doc_id = ''a'', doc_rev = Some ''42-89abcdef'', doc_fields = [''t'' \<mapsto> (2::nat)] \<rparr>]"
        and g = 41 and k = "''a''"
        and doc = "\<lparr> doc_id = ''a'', doc_rev = Some ''42-89abcdef'', doc_fields = [''t'' \<mapsto> (2::nat)] \<rparr>"
        and expected = "Some ''41-aaaaaaaa''" and x = "()" and prevRev = "Some ''41-aaaaaaaa''"]
    by blast
  then have w: "well_formed_rev ''42-89abcdef''" by simp
  show ?thesis by (intro conjI e1 e2 e3 e4 h1 h2 h3 w)
qed

text \<open>
  As stated, with a well-formed \<^verbatim>\<open>_rev\<close> after every mutation, C5 fails:
  \<^verbatim>\<open>applyRemotePut\<close> stores the revision that the sender gives, of whatever form.
\<close>

theorem applyRemotePut_malformed_rev_counterexample:
  "applyRemotePut \<lparr> doc_id = ''a'', doc_rev = Some ''draft'', doc_fields = [''t'' \<mapsto> (1::nat)] \<rparr>
     None Map.empty =
     (Inr \<lparr> doc_id = ''a'', doc_rev = Some ''draft'', doc_fields = [''t'' \<mapsto> 1] \<rparr>,
      [''a'' \<mapsto> Encoded \<lparr> doc_id = ''a'', doc_rev = Some ''draft'', doc_fields = [''t'' \<mapsto> 1] \<rparr>]) \<and>
   \<not> well_formed_rev ''draft''"
  by (simp add: applyRemotePut_eq eval_defs wf_eval)

text \<open>
  \<^bold>\<open>C6.\<close> \<^verbatim>\<open>nextRev\<close> returns \<^verbatim>\<open>1-<nonce>\<close> when its argument is absent, and also when
  the substring before the first \<^verbatim>\<open>-\<close> of the argument is missing, is no number, or is
  \<^verbatim>\<open>Infinity\<close>. When that substring denotes a natural number \<open>n\<close> below \<open>2\<^sup>5\<^sup>3\<close>, however
  written, the result is \<^verbatim>\<open><n+1>-<nonce>\<close>; in particular the revision \<^verbatim>\<open><m>-<h>\<close> with
  \<open>m\<close> in decimal digits is followed by generation \<open>m + 1\<close>. When it denotes \<open>2\<^sup>5\<^sup>3\<close> the
  result is \<^verbatim>\<open><n>-<nonce>\<close>, the same generation again. For every other number the text
  before the nonce is the one that the runtime prints for the sum. The nonce is the first
  eight characters of a UUID, which are hexadecimal.
\<close>

theorem nextRev_contract:
  "nextRev ieee u None = ''1-'' @ take 8 u \<and>
   (rev_prefix r = None \<longrightarrow> nextRev ieee u (Some r) = ''1-'' @ take 8 u) \<and>
   (rev_prefix r = Some pre \<and> Number pre = NaN \<longrightarrow>
      nextRev ieee u (Some r) = ''1-'' @ take 8 u) \<and>
   (rev_prefix r = Some pre \<and> Number pre = Infinite \<longrightarrow>
      nextRev ieee u (Some r) = ''1-'' @ take 8 u) \<and>
   (rev_prefix r = Some pre \<and> Number pre = Integer n \<and> n < 2 ^ 53 \<longrightarrow>
      nextRev ieee u (Some r) = dec_digits (n + 1) @ ''-'' @ take 8 u) \<and>
   (rev_prefix r = Some pre \<and> Number pre = Integer n \<and> \<not> n < 2 ^ 53 \<longrightarrow>
      n = 2 ^ 53 \<and> nextRev ieee u (Some r) = dec_digits n @ ''-'' @ take 8 u) \<and>
   (rev_prefix r = Some pre \<and> Number pre = Inexact t \<longrightarrow>
      nextRev ieee u (Some r) = ieee t @ ''-'' @ take 8 u) \<and>
   (m < 2 ^ 53 \<longrightarrow>
      nextRev ieee u (Some (dec_digits m @ ''-'' @ h)) = dec_digits (m + 1) @ ''-'' @ take 8 u) \<and>
   (is_uuidv4 u \<longrightarrow> length (take 8 u) = 8 \<and> list_all is_hex (take 8 u))"
proof (intro conjI impI)
  show "nextRev ieee u None = ''1-'' @ take 8 u" by (simp add: nextRev_def)
next
  assume "rev_prefix r = None"
  then show "nextRev ieee u (Some r) = ''1-'' @ take 8 u" by (simp add: nextRev_prefix_cases)
next
  assume "rev_prefix r = Some pre \<and> Number pre = NaN"
  then show "nextRev ieee u (Some r) = ''1-'' @ take 8 u" by (simp add: nextRev_prefix_cases)
next
  assume "rev_prefix r = Some pre \<and> Number pre = Infinite"
  then show "nextRev ieee u (Some r) = ''1-'' @ take 8 u" by (simp add: nextRev_prefix_cases)
next
  assume "rev_prefix r = Some pre \<and> Number pre = Integer n \<and> n < 2 ^ 53"
  then show "nextRev ieee u (Some r) = dec_digits (n + 1) @ ''-'' @ take 8 u"
    by (simp add: nextRev_prefix_cases plus_one_def)
next
  assume a: "rev_prefix r = Some pre \<and> Number pre = Integer n \<and> \<not> n < 2 ^ 53"
  then have "n \<le> 2 ^ 53" using Number_Integer_bound [of pre n] by simp
  with a show "n = 2 ^ 53" by simp
  from a show "nextRev ieee u (Some r) = dec_digits n @ ''-'' @ take 8 u"
    by (simp add: nextRev_prefix_cases plus_one_def)
next
  assume "rev_prefix r = Some pre \<and> Number pre = Inexact t"
  then show "nextRev ieee u (Some r) = ieee t @ ''-'' @ take 8 u"
    by (simp add: nextRev_prefix_cases)
next
  assume m: "m < 2 ^ 53"
  then have "Number (dec_digits m) = Integer m" by (simp add: Number_dec_digits)
  then show "nextRev ieee u (Some (dec_digits m @ ''-'' @ h)) = dec_digits (m + 1) @ ''-'' @ take 8 u"
    using m by (simp add: nextRev_prefix_cases rev_prefix_digits_dash plus_one_def)
next
  assume "is_uuidv4 u" then show "length (take 8 u) = 8" by (simp add: is_uuidv4_def)
next
  assume "is_uuidv4 u" then show "list_all is_hex (take 8 u)" by (simp add: is_uuidv4_def)
qed

theorem nextRev_contract_witness:
  "rev_prefix ''41-deadbeef'' = Some ''41'' \<and> Number ''41'' = Integer 41 \<and> (41::nat) < 2 ^ 53 \<and>
   nextRev (\<lambda>t. if t = ''1.5'' then ''2.5'' else ''1'') ''0123abcd-aaaa-4bbb-8ccc-dddddddddddd'' (Some ''41-deadbeef'') = ''42-0123abcd'' \<and>
   rev_prefix ''1e1-deadbeef'' = Some ''1e1'' \<and> Number ''1e1'' = Integer 10 \<and> (10::nat) < 2 ^ 53 \<and>
   nextRev (\<lambda>t. if t = ''1.5'' then ''2.5'' else ''1'') ''0123abcd-aaaa-4bbb-8ccc-dddddddddddd'' (Some ''1e1-deadbeef'') = ''11-0123abcd'' \<and>
   rev_prefix ''abc-deadbeef'' = Some ''abc'' \<and> Number ''abc'' = NaN \<and>
   nextRev (\<lambda>t. if t = ''1.5'' then ''2.5'' else ''1'') ''0123abcd-aaaa-4bbb-8ccc-dddddddddddd'' (Some ''abc-deadbeef'') = ''1-0123abcd'' \<and>
   rev_prefix ''Infinity-deadbeef'' = Some ''Infinity'' \<and> Number ''Infinity'' = Infinite \<and>
   nextRev (\<lambda>t. if t = ''1.5'' then ''2.5'' else ''1'') ''0123abcd-aaaa-4bbb-8ccc-dddddddddddd'' (Some ''Infinity-deadbeef'') = ''1-0123abcd'' \<and>
   rev_prefix ''nodash'' = None \<and>
   nextRev (\<lambda>t. if t = ''1.5'' then ''2.5'' else ''1'') ''0123abcd-aaaa-4bbb-8ccc-dddddddddddd'' (Some ''nodash'') = ''1-0123abcd'' \<and>
   rev_prefix ''9007199254740992-deadbeef'' = Some ''9007199254740992'' \<and>
   Number ''9007199254740992'' = Integer 9007199254740992 \<and> \<not> (9007199254740992::nat) < 2 ^ 53 \<and>
   nextRev (\<lambda>t. if t = ''1.5'' then ''2.5'' else ''1'') ''0123abcd-aaaa-4bbb-8ccc-dddddddddddd'' (Some ''9007199254740992-deadbeef'') =
     ''9007199254740992-0123abcd'' \<and>
   rev_prefix ''1.5-deadbeef'' = Some ''1.5'' \<and> Number ''1.5'' = Inexact ''1.5'' \<and>
   nextRev (\<lambda>t. if t = ''1.5'' then ''2.5'' else ''1'') ''0123abcd-aaaa-4bbb-8ccc-dddddddddddd'' (Some ''1.5-deadbeef'') = ''2.5-0123abcd'' \<and>
   (7::nat) < 2 ^ 53 \<and>
   nextRev (\<lambda>t. if t = ''1.5'' then ''2.5'' else ''1'') ''0123abcd-aaaa-4bbb-8ccc-dddddddddddd'' (Some (dec_digits 7 @ ''-'' @ ''cafe'')) = ''8-0123abcd'' \<and>
   is_uuidv4 ''0123abcd-aaaa-4bbb-8ccc-dddddddddddd'' \<and>
   length (take 8 ''0123abcd-aaaa-4bbb-8ccc-dddddddddddd'') = 8 \<and>
   list_all is_hex (take 8 ''0123abcd-aaaa-4bbb-8ccc-dddddddddddd'')"
proof -
  have ah: "rev_prefix ''41-deadbeef'' = Some ''41'' \<and> Number ''41'' = Integer 41 \<and> (41::nat) < 2 ^ 53"
    by (simp add: rev_prefix_def num_defs)
  have ar: "nextRev (\<lambda>t. if t = ''1.5'' then ''2.5'' else ''1'') ''0123abcd-aaaa-4bbb-8ccc-dddddddddddd'' (Some ''41-deadbeef'') = dec_digits (41 + 1) @ ''-'' @ take 8 ''0123abcd-aaaa-4bbb-8ccc-dddddddddddd''"
    using nextRev_contract [where ieee = "\<lambda>t. if t = ''1.5'' then ''2.5'' else ''1''" and u = "''0123abcd-aaaa-4bbb-8ccc-dddddddddddd''"
        and r = "''41-deadbeef''" and pre = "''41''" and n = "41" and t = "''''" and m = 7 and h = "''cafe''"]
      ah by blast
  have ac: "nextRev (\<lambda>t. if t = ''1.5'' then ''2.5'' else ''1'') ''0123abcd-aaaa-4bbb-8ccc-dddddddddddd'' (Some ''41-deadbeef'') = ''42-0123abcd''"
    using ar by (simp add: dec_eval)
  have bh: "rev_prefix ''1e1-deadbeef'' = Some ''1e1'' \<and> Number ''1e1'' = Integer 10 \<and> (10::nat) < 2 ^ 53"
    by (simp add: rev_prefix_def num_defs)
  have br: "nextRev (\<lambda>t. if t = ''1.5'' then ''2.5'' else ''1'') ''0123abcd-aaaa-4bbb-8ccc-dddddddddddd'' (Some ''1e1-deadbeef'') = dec_digits (10 + 1) @ ''-'' @ take 8 ''0123abcd-aaaa-4bbb-8ccc-dddddddddddd''"
    using nextRev_contract [where ieee = "\<lambda>t. if t = ''1.5'' then ''2.5'' else ''1''" and u = "''0123abcd-aaaa-4bbb-8ccc-dddddddddddd''"
        and r = "''1e1-deadbeef''" and pre = "''1e1''" and n = "10" and t = "''''" and m = 7 and h = "''cafe''"]
      bh by blast
  have bc: "nextRev (\<lambda>t. if t = ''1.5'' then ''2.5'' else ''1'') ''0123abcd-aaaa-4bbb-8ccc-dddddddddddd'' (Some ''1e1-deadbeef'') = ''11-0123abcd''"
    using br by (simp add: dec_eval)
  have ch: "rev_prefix ''abc-deadbeef'' = Some ''abc'' \<and> Number ''abc'' = NaN"
    by (simp add: rev_prefix_def num_defs)
  have cr: "nextRev (\<lambda>t. if t = ''1.5'' then ''2.5'' else ''1'') ''0123abcd-aaaa-4bbb-8ccc-dddddddddddd'' (Some ''abc-deadbeef'') = ''1-'' @ take 8 ''0123abcd-aaaa-4bbb-8ccc-dddddddddddd''"
    using nextRev_contract [where ieee = "\<lambda>t. if t = ''1.5'' then ''2.5'' else ''1''" and u = "''0123abcd-aaaa-4bbb-8ccc-dddddddddddd''"
        and r = "''abc-deadbeef''" and pre = "''abc''" and n = "0" and t = "''''" and m = 7 and h = "''cafe''"]
      ch by blast
  have cc: "nextRev (\<lambda>t. if t = ''1.5'' then ''2.5'' else ''1'') ''0123abcd-aaaa-4bbb-8ccc-dddddddddddd'' (Some ''abc-deadbeef'') = ''1-0123abcd''"
    using cr by (simp add: dec_eval)
  have dh: "rev_prefix ''Infinity-deadbeef'' = Some ''Infinity'' \<and> Number ''Infinity'' = Infinite"
    by (simp add: rev_prefix_def num_defs)
  have dr: "nextRev (\<lambda>t. if t = ''1.5'' then ''2.5'' else ''1'') ''0123abcd-aaaa-4bbb-8ccc-dddddddddddd'' (Some ''Infinity-deadbeef'') = ''1-'' @ take 8 ''0123abcd-aaaa-4bbb-8ccc-dddddddddddd''"
    using nextRev_contract [where ieee = "\<lambda>t. if t = ''1.5'' then ''2.5'' else ''1''" and u = "''0123abcd-aaaa-4bbb-8ccc-dddddddddddd''"
        and r = "''Infinity-deadbeef''" and pre = "''Infinity''" and n = "0" and t = "''''" and m = 7 and h = "''cafe''"]
      dh by blast
  have dc: "nextRev (\<lambda>t. if t = ''1.5'' then ''2.5'' else ''1'') ''0123abcd-aaaa-4bbb-8ccc-dddddddddddd'' (Some ''Infinity-deadbeef'') = ''1-0123abcd''"
    using dr by (simp add: dec_eval)
  have eh: "rev_prefix ''nodash'' = None"
    by (simp add: rev_prefix_def num_defs)
  have er: "nextRev (\<lambda>t. if t = ''1.5'' then ''2.5'' else ''1'') ''0123abcd-aaaa-4bbb-8ccc-dddddddddddd'' (Some ''nodash'') = ''1-'' @ take 8 ''0123abcd-aaaa-4bbb-8ccc-dddddddddddd''"
    using nextRev_contract [where ieee = "\<lambda>t. if t = ''1.5'' then ''2.5'' else ''1''" and u = "''0123abcd-aaaa-4bbb-8ccc-dddddddddddd''"
        and r = "''nodash''" and pre = "''''" and n = "0" and t = "''''" and m = 7 and h = "''cafe''"]
      eh by blast
  have ec: "nextRev (\<lambda>t. if t = ''1.5'' then ''2.5'' else ''1'') ''0123abcd-aaaa-4bbb-8ccc-dddddddddddd'' (Some ''nodash'') = ''1-0123abcd''"
    using er by (simp add: dec_eval)
  have fh: "rev_prefix ''9007199254740992-deadbeef'' = Some ''9007199254740992'' \<and>
   Number ''9007199254740992'' = Integer 9007199254740992 \<and> \<not> (9007199254740992::nat) < 2 ^ 53"
    by (simp add: rev_prefix_def num_defs)
  have fr: "(9007199254740992::nat) = 2 ^ 53 \<and>
     nextRev (\<lambda>t. if t = ''1.5'' then ''2.5'' else ''1'') ''0123abcd-aaaa-4bbb-8ccc-dddddddddddd'' (Some ''9007199254740992-deadbeef'') =
       dec_digits 9007199254740992 @ ''-'' @ take 8 ''0123abcd-aaaa-4bbb-8ccc-dddddddddddd''"
    using nextRev_contract [where ieee = "\<lambda>t. if t = ''1.5'' then ''2.5'' else ''1''" and u = "''0123abcd-aaaa-4bbb-8ccc-dddddddddddd''"
        and r = "''9007199254740992-deadbeef''" and pre = "''9007199254740992''" and n = "9007199254740992" and t = "''''" and m = 7 and h = "''cafe''"]
      fh by blast
  have fc: "nextRev (\<lambda>t. if t = ''1.5'' then ''2.5'' else ''1'') ''0123abcd-aaaa-4bbb-8ccc-dddddddddddd'' (Some ''9007199254740992-deadbeef'') =
     ''9007199254740992-0123abcd''"
    using fr by (simp add: dec_eval)
  have gh: "rev_prefix ''1.5-deadbeef'' = Some ''1.5'' \<and> Number ''1.5'' = Inexact ''1.5''"
    by (simp add: rev_prefix_def num_defs)
  have gr: "nextRev (\<lambda>t. if t = ''1.5'' then ''2.5'' else ''1'') ''0123abcd-aaaa-4bbb-8ccc-dddddddddddd'' (Some ''1.5-deadbeef'') =
       (\<lambda>t. if t = ''1.5'' then ''2.5'' else ''1'') ''1.5'' @ ''-'' @ take 8 ''0123abcd-aaaa-4bbb-8ccc-dddddddddddd''"
    using nextRev_contract [where ieee = "\<lambda>t. if t = ''1.5'' then ''2.5'' else ''1''" and u = "''0123abcd-aaaa-4bbb-8ccc-dddddddddddd''"
        and r = "''1.5-deadbeef''" and pre = "''1.5''" and n = "0" and t = "''1.5''" and m = 7 and h = "''cafe''"]
      gh by blast
  have gc: "nextRev (\<lambda>t. if t = ''1.5'' then ''2.5'' else ''1'') ''0123abcd-aaaa-4bbb-8ccc-dddddddddddd'' (Some ''1.5-deadbeef'') = ''2.5-0123abcd''"
    using gr by (simp add: dec_eval)
  have mh: "(7::nat) < 2 ^ 53" by simp
  have mr: "nextRev (\<lambda>t. if t = ''1.5'' then ''2.5'' else ''1'') ''0123abcd-aaaa-4bbb-8ccc-dddddddddddd'' (Some (dec_digits 7 @ ''-'' @ ''cafe'')) =
       dec_digits (7 + 1) @ ''-'' @ take 8 ''0123abcd-aaaa-4bbb-8ccc-dddddddddddd''"
    using nextRev_contract [where ieee = "\<lambda>t. if t = ''1.5'' then ''2.5'' else ''1''" and u = "''0123abcd-aaaa-4bbb-8ccc-dddddddddddd''"
        and r = "''nodash''" and pre = "''''" and n = "0" and t = "''''" and m = 7 and h = "''cafe''"]
      mh by blast
  have mc: "nextRev (\<lambda>t. if t = ''1.5'' then ''2.5'' else ''1'') ''0123abcd-aaaa-4bbb-8ccc-dddddddddddd'' (Some (dec_digits 7 @ ''-'' @ ''cafe'')) = ''8-0123abcd''"
    using mr by (simp add: dec_eval)
  have uh: "is_uuidv4 ''0123abcd-aaaa-4bbb-8ccc-dddddddddddd''"
    by (simp add: is_uuidv4_def is_hex_def)
  have uc: "length (take 8 ''0123abcd-aaaa-4bbb-8ccc-dddddddddddd'') = 8 \<and> list_all is_hex (take 8 ''0123abcd-aaaa-4bbb-8ccc-dddddddddddd'')"
    using nextRev_contract [where ieee = "\<lambda>t. if t = ''1.5'' then ''2.5'' else ''1''" and u = "''0123abcd-aaaa-4bbb-8ccc-dddddddddddd''"
        and r = "''nodash''" and pre = "''''" and n = "0" and t = "''''" and m = 7 and h = "''cafe''"]
      uh by blast
  from ah ac bh bc ch cc dh dc eh ec fh fc gh gc mh mc uh uc show ?thesis by blast
qed

text \<open>
  As stated, with \<^verbatim>\<open><n+1>\<close> for every number \<open>n\<close> that the prefix denotes and generation 0
  for the prefixes that are no number only, C6 fails. The prefix \<^verbatim>\<open>9007199254740992\<close>
  denotes \<open>2\<^sup>5\<^sup>3\<close>, and the next revision has that generation again, not
  \<^verbatim>\<open>9007199254740993\<close>; the prefix \<^verbatim>\<open>Infinity\<close> is a number, and is followed by generation 1.
\<close>

theorem nextRev_rounding_counterexample:
  "Number ''9007199254740992'' = Integer 9007199254740992 \<and>
   nextRev (\<lambda>t. t) ''0123abcd-aaaa-4bbb-8ccc-dddddddddddd''
       (Some ''9007199254740992-deadbeef'') =
     ''9007199254740992-0123abcd'' \<and>
   dec_digits (9007199254740992 + 1) = ''9007199254740993'' \<and>
   Number ''Infinity'' = Infinite \<and> Number ''Infinity'' \<noteq> NaN \<and>
   nextRev (\<lambda>t. t) ''0123abcd-aaaa-4bbb-8ccc-dddddddddddd'' (Some ''Infinity-deadbeef'') = ''1-0123abcd''"
  by (simp add: nextRev_def plus_one_def num_defs dec_eval)

text \<open>
  \<^bold>\<open>C7.\<close> A \<^verbatim>\<open>POST /replicate\<close> body without \<^verbatim>\<open>op\<close> or without a non-empty \<^verbatim>\<open>_id\<close>, with
  an \<^verbatim>\<open>op\<close> other than \<^verbatim>\<open>put\<close> and \<^verbatim>\<open>del\<close>, or, for \<^verbatim>\<open>put\<close>, without \<^verbatim>\<open>doc\<close> or with
  \<^verbatim>\<open>doc._id\<close> unequal to \<^verbatim>\<open>_id\<close> or \<^verbatim>\<open>doc._rev\<close> unequal to \<^verbatim>\<open>rev\<close>, is answered 400
  and the store is not modified. Any other body is passed to \<^verbatim>\<open>applyRemotePut\<close> or
  \<^verbatim>\<open>applyRemoteDel\<close>: success is answered 200 \<^verbatim>\<open>{ok:true}\<close>, an error with the status that
  the error carries (409 for a conflict, 400 for the missing \<^verbatim>\<open>_rev\<close> of a remote put), and
  an error that carries no status with 500.
\<close>

theorem replicate_contract:
  "(invalid_body body \<longrightarrow>
      res_status (fst (replicationRouter_post body s)) = 400 \<and>
      snd (replicationRouter_post body s) = s) \<and>
   (\<not> invalid_body (Some b) \<and> body_op b = Some ''put'' \<and> body_id b = Some k \<and>
    body_doc b = Some doc \<longrightarrow>
      replicationRouter_post (Some b) s =
        (case applyRemotePut \<lparr> doc_id = k, doc_rev = in_rev doc, doc_fields = in_fields doc \<rparr>
                (body_prevRev b) s of
           (Inr d, s') \<Rightarrow> (\<lparr> res_status = 200, res_body = JsonOk \<rparr>, s')
         | (Inl e, s') \<Rightarrow>
             (\<lparr> res_status = status_or_500 e, res_body = JsonError (message_or e ''error'') \<rparr>,
              s'))) \<and>
   (\<not> invalid_body (Some b) \<and> body_op b = Some ''del'' \<and> body_id b = Some k \<longrightarrow>
      replicationRouter_post (Some b) s =
        (case applyRemoteDel k (body_prevRev b) s of
           (Inr d, s') \<Rightarrow> (\<lparr> res_status = 200, res_body = JsonOk \<rparr>, s')
         | (Inl e, s') \<Rightarrow>
             (\<lparr> res_status = status_or_500 e, res_body = JsonError (message_or e ''error'') \<rparr>,
              s'))) \<and>
   status_or_500 conflict_mismatch = 409 \<and>
   status_or_500 invalid_remote_put = 400 \<and>
   status_or_500 (Error None m) = 500"
proof (intro conjI impI)
  assume "invalid_body body"
  then show "res_status (fst (replicationRouter_post body s)) = 400"
    and "snd (replicationRouter_post body s) = s"
    using replicate_invalid by blast+
next
  assume "\<not> invalid_body (Some b) \<and> body_op b = Some ''put'' \<and> body_id b = Some k \<and>
    body_doc b = Some doc"
  then show "replicationRouter_post (Some b) s =
        (case applyRemotePut \<lparr> doc_id = k, doc_rev = in_rev doc, doc_fields = in_fields doc \<rparr>
                (body_prevRev b) s of
           (Inr d, s') \<Rightarrow> (\<lparr> res_status = 200, res_body = JsonOk \<rparr>, s')
         | (Inl e, s') \<Rightarrow>
             (\<lparr> res_status = status_or_500 e, res_body = JsonError (message_or e ''error'') \<rparr>,
              s'))"
    using replicate_put by blast
next
  assume "\<not> invalid_body (Some b) \<and> body_op b = Some ''del'' \<and> body_id b = Some k"
  then show "replicationRouter_post (Some b) s =
        (case applyRemoteDel k (body_prevRev b) s of
           (Inr d, s') \<Rightarrow> (\<lparr> res_status = 200, res_body = JsonOk \<rparr>, s')
         | (Inl e, s') \<Rightarrow>
             (\<lparr> res_status = status_or_500 e, res_body = JsonError (message_or e ''error'') \<rparr>,
              s'))"
    using replicate_del by blast
qed (simp_all add: status_or_500_def conflict_mismatch_def invalid_remote_put_def)

theorem replicate_contract_witness:
  "invalid_body (Some \<lparr> body_op = Some ''patch'', body_id = Some ''a'', body_prevRev = None,
                        body_rev = None, body_doc = (None :: nat PartialDoc option) \<rparr>) \<and>
   replicationRouter_post
     (Some \<lparr> body_op = Some ''patch'', body_id = Some ''a'', body_prevRev = None,
             body_rev = None, body_doc = (None :: nat PartialDoc option) \<rparr>) Map.empty =
     (\<lparr> res_status = 400, res_body = JsonError ''invalid op'' \<rparr>, Map.empty) \<and>
   \<not> invalid_body (Some \<lparr> body_op = Some ''put'', body_id = Some ''a'', body_prevRev = None,
       body_rev = Some ''1-aaaaaaaa'',
       body_doc = Some \<lparr> in_id = Some ''a'', in_rev = Some ''1-aaaaaaaa'',
                          in_fields = [''t'' \<mapsto> (1::nat)] \<rparr> \<rparr>) \<and>
   replicationRouter_post
     (Some \<lparr> body_op = Some ''put'', body_id = Some ''a'', body_prevRev = None,
       body_rev = Some ''1-aaaaaaaa'',
       body_doc = Some \<lparr> in_id = Some ''a'', in_rev = Some ''1-aaaaaaaa'',
                          in_fields = [''t'' \<mapsto> (1::nat)] \<rparr> \<rparr>) Map.empty =
     (\<lparr> res_status = 200, res_body = JsonOk \<rparr>,
      [''a'' \<mapsto> Encoded \<lparr> doc_id = ''a'', doc_rev = Some ''1-aaaaaaaa'',
                          doc_fields = [''t'' \<mapsto> 1] \<rparr>]) \<and>
   \<not> invalid_body (Some \<lparr> body_op = Some ''del'', body_id = Some ''a'',
       body_prevRev = Some ''1-aaaaaaaa'', body_rev = None,
       body_doc = (None :: nat PartialDoc option) \<rparr>) \<and>
   replicationRouter_post
     (Some \<lparr> body_op = Some ''del'', body_id = Some ''a'',
       body_prevRev = Some ''1-aaaaaaaa'', body_rev = None,
       body_doc = (None :: nat PartialDoc option) \<rparr>) Map.empty =
     (\<lparr> res_status = 409, res_body = JsonError ''conflict: revision mismatch'' \<rparr>, Map.empty)"
  using replicate_contract [where body = "Some \<lparr> body_op = Some ''patch'', body_id = Some ''a'',
        body_prevRev = None, body_rev = None, body_doc = (None :: nat PartialDoc option) \<rparr>"
      and s = Map.empty
      and b = "\<lparr> body_op = Some ''put'', body_id = Some ''a'', body_prevRev = None,
        body_rev = Some ''1-aaaaaaaa'',
        body_doc = Some \<lparr> in_id = Some ''a'', in_rev = Some ''1-aaaaaaaa'',
                          in_fields = [''t'' \<mapsto> (1::nat)] \<rparr> \<rparr>"
      and k = "''a''"
      and doc = "\<lparr> in_id = Some ''a'', in_rev = Some ''1-aaaaaaaa'',
                   in_fields = [''t'' \<mapsto> (1::nat)] \<rparr>"]
    replicate_contract [where body = "None :: nat ReplicateBody option" and s = Map.empty
      and b = "\<lparr> body_op = Some ''del'', body_id = Some ''a'',
        body_prevRev = Some ''1-aaaaaaaa'', body_rev = None,
        body_doc = (None :: nat PartialDoc option) \<rparr>"
      and k = "''a''"]
  by (simp add: replicate_eval eval_defs)

text \<open>
  As stated, with every error other than a conflict answered 500, C7 fails: a \<^verbatim>\<open>put\<close> body
  whose \<^verbatim>\<open>rev\<close> and \<^verbatim>\<open>doc._rev\<close> are both the empty string passes the validation, the
  engine refuses it with its 400 error, and the answer is 400.
\<close>

theorem replicate_invalid_rev_counterexample:
  "\<not> invalid_body (Some \<lparr> body_op = Some ''put'', body_id = Some ''a'', body_prevRev = None,
       body_rev = Some [],
       body_doc = Some \<lparr> in_id = Some ''a'', in_rev = Some [],
                          in_fields = [''t'' \<mapsto> (1::nat)] \<rparr> \<rparr>) \<and>
   applyRemotePut \<lparr> doc_id = ''a'', doc_rev = Some [], doc_fields = [''t'' \<mapsto> (1::nat)] \<rparr>
     None Map.empty = (Inl invalid_remote_put, Map.empty) \<and>
   invalid_remote_put \<noteq> conflict_mismatch \<and>
   replicationRouter_post
     (Some \<lparr> body_op = Some ''put'', body_id = Some ''a'', body_prevRev = None,
       body_rev = Some [],
       body_doc = Some \<lparr> in_id = Some ''a'', in_rev = Some [],
                          in_fields = [''t'' \<mapsto> (1::nat)] \<rparr> \<rparr>) Map.empty =
     (\<lparr> res_status = 400, res_body = JsonError ''invalid: missing _rev for remote put'' \<rparr>,
      Map.empty)"
  by (simp add: replicate_eval eval_defs)

text \<open>
  \<^bold>\<open>C8.\<close> When \<^verbatim>\<open>applyRemotePut(doc, prevRev)\<close> succeeds and is applied again at once:
  if \<^verbatim>\<open>doc._rev\<close> differs from \<^verbatim>\<open>prevRev\<close> the second call throws the 409 conflict and
  leaves the store as the first call left it, the stored \<^verbatim>\<open>_rev\<close>, now \<^verbatim>\<open>doc._rev\<close>, no
  longer matching \<^verbatim>\<open>prevRev\<close>; if \<^verbatim>\<open>doc._rev\<close> equals \<^verbatim>\<open>prevRev\<close> the second call
  succeeds as the first did.
\<close>

theorem applyRemotePut_twice:
  assumes "applyRemotePut doc prevRev s = (Inr d, s1)"
  shows "(doc_rev doc \<noteq> prevRev \<longrightarrow> applyRemotePut doc prevRev s1 = (Inl conflict_mismatch, s1)) \<and>
         (doc_rev doc = prevRev \<longrightarrow> applyRemotePut doc prevRev s1 = (Inr doc, s1))"
proof -
  from assms have t: "truthy (doc_rev doc)" and s1: "s1 = s(doc_id doc \<mapsto> Encoded doc)"
    by (auto simp: applyRemotePut_eq split: if_splits)
  have r: "stored_rev s1 (doc_id doc) = doc_rev doc" by (simp add: s1 stored_rev_upd)
  have u: "or_undefined (doc_rev doc) = doc_rev doc" using t by (simp add: or_undefined_def)
  have m: "or_undefined (doc_rev doc) = or_undefined prevRev \<longleftrightarrow> doc_rev doc = prevRev"
    using t by (auto simp: or_undefined_def truthy_def split: option.splits if_splits)
  have i: "s1(doc_id doc \<mapsto> Encoded doc) = s1" by (auto simp: s1)
  have a: "applyRemotePut doc prevRev s1 =
      (if doc_rev doc = prevRev then (Inr doc, s1) else (Inl conflict_mismatch, s1))"
    unfolding applyRemotePut_eq r m i using t by simp
  then show ?thesis by simp
qed

theorem applyRemotePut_twice_witness:
  "applyRemotePut \<lparr> doc_id = ''a'', doc_rev = Some ''1-aaaaaaaa'', doc_fields = Map.empty \<rparr>
     None (Map.empty :: nat store) =
     (Inr \<lparr> doc_id = ''a'', doc_rev = Some ''1-aaaaaaaa'', doc_fields = Map.empty \<rparr>,
      [''a'' \<mapsto> Encoded \<lparr> doc_id = ''a'', doc_rev = Some ''1-aaaaaaaa'', doc_fields = Map.empty \<rparr>]) \<and>
   Some ''1-aaaaaaaa'' \<noteq> None \<and>
   applyRemotePut \<lparr> doc_id = ''a'', doc_rev = Some ''1-aaaaaaaa'', doc_fields = Map.empty \<rparr>
     None [''a'' \<mapsto> Encoded \<lparr> doc_id = ''a'', doc_rev = Some ''1-aaaaaaaa'',
                               doc_fields = (Map.empty :: string \<rightharpoonup> nat) \<rparr>] =
     (Inl conflict_mismatch,
      [''a'' \<mapsto> Encoded \<lparr> doc_id = ''a'', doc_rev = Some ''1-aaaaaaaa'', doc_fields = Map.empty \<rparr>])"
  using applyRemotePut_twice [where doc = "\<lparr> doc_id = ''a'', doc_rev = Some ''1-aaaaaaaa'', doc_fields = (Map.empty :: string \<rightharpoonup> nat) \<rparr>"
      and prevRev = None and s = Map.empty
      and d = "\<lparr> doc_id = ''a'', doc_rev = Some ''1-aaaaaaaa'', doc_fields = Map.empty \<rparr>"
      and ?s1.0 = "[''a'' \<mapsto> Encoded \<lparr> doc_id = ''a'', doc_rev = Some ''1-aaaaaaaa'', doc_fields = Map.empty \<rparr>]"]
  by (simp add: applyRemotePut_eq eval_defs)

text \<open>
  As stated, for every change record, C8 fails: a change record whose \<^verbatim>\<open>rev\<close> is its
  \<^verbatim>\<open>prevRev\<close> is applied twice with success.
\<close>

theorem applyRemotePut_twice_counterexample:
  "applyRemotePut \<lparr> doc_id = ''a'', doc_rev = Some ''1-aaaaaaaa'', doc_fields = [''t'' \<mapsto> 2] \<rparr>
     (Some ''1-aaaaaaaa'')
     [''a'' \<mapsto> Encoded \<lparr> doc_id = ''a'', doc_rev = Some ''1-aaaaaaaa'', doc_fields = [''t'' \<mapsto> (1::nat)] \<rparr>] =
     (Inr \<lparr> doc_id = ''a'', doc_rev = Some ''1-aaaaaaaa'', doc_fields = [''t'' \<mapsto> 2] \<rparr>,
      [''a'' \<mapsto> Encoded \<lparr> doc_id = ''a'', doc_rev = Some ''1-aaaaaaaa'', doc_fields = [''t'' \<mapsto> 2] \<rparr>]) \<and>
   applyRemotePut \<lparr> doc_id = ''a'', doc_rev = Some ''1-aaaaaaaa'', doc_fields = [''t'' \<mapsto> 2] \<rparr>
     (Some ''1-aaaaaaaa'')
     [''a'' \<mapsto> Encoded \<lparr> doc_id = ''a'', doc_rev = Some ''1-aaaaaaaa'', doc_fields = [''t'' \<mapsto> (2::nat)] \<rparr>] =
     (Inr \<lparr> doc_id = ''a'', doc_rev = Some ''1-aaaaaaaa'', doc_fields = [''t'' \<mapsto> 2] \<rparr>,
      [''a'' \<mapsto> Encoded \<lparr> doc_id = ''a'', doc_rev = Some ''1-aaaaaaaa'', doc_fields = [''t'' \<mapsto> 2] \<rparr>])"
  by (simp add: applyRemotePut_eq eval_defs)

text \<open>
  \<^bold>\<open>C9.\<close> When the text stored under a key is not valid JSON, \<^verbatim>\<open>get\<close> returns no document,
  a \<^verbatim>\<open>put\<close> to that key with an absent or empty \<^verbatim>\<open>_rev\<close> replaces the text by a fresh
  document of generation 1, and a \<^verbatim>\<open>put\<close> with a non-empty \<^verbatim>\<open>_rev\<close> throws the 409
  conflict and leaves the store unchanged.
\<close>

theorem malformed_value_is_absent:
  assumes "s k = Some (Malformed t)" and "in_id input = Some k" and "k \<noteq> []"
  shows "get k s = (Inr None, s) \<and>
         (\<not> truthy (in_rev input) \<longrightarrow>
            (\<exists>d. put ieee u_id u_rev input s = (Inr d, s(k \<mapsto> Encoded d)) \<and>
                 doc_id d = k \<and> doc_rev d = Some (''1-'' @ take 8 u_rev) \<and>
                 generation (''1-'' @ take 8 u_rev) = Some 1 \<and>
                 doc_fields d = in_fields input)) \<and>
         (truthy (in_rev input) \<longrightarrow>
            put ieee u_id u_rev input s = (Inl conflict_missing, s) \<and>
            status conflict_missing = Some 409)"
proof -
  have cur: "current s k = None" using assms(1) by (simp add: current_def)
  have key: "or_else (in_id input) u_id = k" using assms(2,3) by (simp add: or_else_def)
  have nr: "\<not> truthy (in_rev input) \<Longrightarrow>
      nextRev ieee u_rev (stored_rev s k) = ''1-'' @ take 8 u_rev"
    by (simp add: stored_rev_def cur rev_of_def nextRev_def)
  show ?thesis
    using nr
    by (auto simp: get_def load_current cur put_casPut key casPut_eq next_doc_def spread_def
        rev_of_def generation_one conflict_missing_def truthy_def
        simp del: append.simps split: option.splits)
qed

theorem malformed_value_is_absent_witness:
  "[''a'' \<mapsto> Malformed ''{oops''] ''a'' = Some (Malformed ''{oops'' :: nat stored) \<and>
   in_id \<lparr> in_id = Some ''a'', in_rev = None, in_fields = [''t'' \<mapsto> (1::nat)] \<rparr> = Some ''a'' \<and>
   ''a'' \<noteq> [] \<and>
   get ''a'' [''a'' \<mapsto> Malformed ''{oops'' :: nat stored] =
     (Inr None, [''a'' \<mapsto> Malformed ''{oops'']) \<and>
   \<not> truthy None \<and>
   put (\<lambda>t. t) ''0123abcd-aaaa-4bbb-8ccc-dddddddddddd'' ''89abcdef-aaaa-4bbb-8ccc-dddddddddddd''
     \<lparr> in_id = Some ''a'', in_rev = None, in_fields = [''t'' \<mapsto> (1::nat)] \<rparr>
     [''a'' \<mapsto> Malformed ''{oops''] =
     (Inr \<lparr> doc_id = ''a'', doc_rev = Some ''1-89abcdef'', doc_fields = [''t'' \<mapsto> 1] \<rparr>,
      [''a'' \<mapsto> Encoded \<lparr> doc_id = ''a'', doc_rev = Some ''1-89abcdef'', doc_fields = [''t'' \<mapsto> 1] \<rparr>]) \<and>
   truthy (Some ''1-aaaaaaaa'') \<and>
   put (\<lambda>t. t) ''0123abcd-aaaa-4bbb-8ccc-dddddddddddd'' ''89abcdef-aaaa-4bbb-8ccc-dddddddddddd''
     \<lparr> in_id = Some ''a'', in_rev = Some ''1-aaaaaaaa'', in_fields = [''t'' \<mapsto> (1::nat)] \<rparr>
     [''a'' \<mapsto> Malformed ''{oops''] =
     (Inl conflict_missing, [''a'' \<mapsto> Malformed ''{oops''])"
  using malformed_value_is_absent [where s = "[''a'' \<mapsto> Malformed ''{oops'' :: nat stored]"
      and k = "''a''" and t = "''{oops''" and ieee = "\<lambda>t. t"
      and u_id = "''0123abcd-aaaa-4bbb-8ccc-dddddddddddd''"
      and u_rev = "''89abcdef-aaaa-4bbb-8ccc-dddddddddddd''"
      and input = "\<lparr> in_id = Some ''a'', in_rev = None, in_fields = [''t'' \<mapsto> (1::nat)] \<rparr>"]
    malformed_value_is_absent [where s = "[''a'' \<mapsto> Malformed ''{oops'' :: nat stored]"
      and k = "''a''" and t = "''{oops''" and ieee = "\<lambda>t. t"
      and u_id = "''0123abcd-aaaa-4bbb-8ccc-dddddddddddd''"
      and u_rev = "''89abcdef-aaaa-4bbb-8ccc-dddddddddddd''"
      and input = "\<lparr> in_id = Some ''a'', in_rev = Some ''1-aaaaaaaa'', in_fields = [''t'' \<mapsto> (1::nat)] \<rparr>"]
  by (simp add: get_def load_current put_casPut casPut_eq eval_defs)

text \<open>
  As stated, with a conflict for a \<^verbatim>\<open>put\<close> carrying any \<^verbatim>\<open>_rev\<close>, C9 fails: a \<^verbatim>\<open>put\<close>
  whose \<^verbatim>\<open>_rev\<close> is the empty string replaces the text.
\<close>

theorem malformed_put_empty_rev_counterexample:
  "in_rev \<lparr> in_id = Some ''a'', in_rev = Some [], in_fields = [''t'' \<mapsto> (1::nat)] \<rparr> \<noteq> None \<and>
   put (\<lambda>t. t) ''0123abcd-aaaa-4bbb-8ccc-dddddddddddd'' ''89abcdef-aaaa-4bbb-8ccc-dddddddddddd''
     \<lparr> in_id = Some ''a'', in_rev = Some [], in_fields = [''t'' \<mapsto> (1::nat)] \<rparr>
     [''a'' \<mapsto> Malformed ''{oops''] =
     (Inr \<lparr> doc_id = ''a'', doc_rev = Some ''1-89abcdef'', doc_fields = [''t'' \<mapsto> 1] \<rparr>,
      [''a'' \<mapsto> Encoded \<lparr> doc_id = ''a'', doc_rev = Some ''1-89abcdef'', doc_fields = [''t'' \<mapsto> 1] \<rparr>])"
  by (simp add: put_casPut casPut_eq eval_defs)

text \<open>
  \<^bold>\<open>C10.\<close> A plain \<^verbatim>\<open>put\<close> or a \<^verbatim>\<open>POST /api/docs\<close> request whose \<^verbatim>\<open>_id\<close> is the empty
  string does what it does without an \<^verbatim>\<open>_id\<close>: the key of the write is the fresh UUID, and
  the value under the empty key stays what it was.
\<close>

theorem empty_id_not_a_key:
  assumes "is_uuidv4 u_id" and "in_id input = Some []"
  shows "put ieee u_id u_rev input s = casPut ieee u_id u_rev input s \<and>
         put ieee u_id u_rev input s = put ieee u_id u_rev (input\<lparr>in_id := None\<rparr>) s \<and>
         snd (put ieee u_id u_rev input s) [] = s [] \<and>
         docsRouter_post ieee u_id u_rev peers fetch input n =
           docsRouter_post ieee u_id u_rev peers fetch (input\<lparr>in_id := None\<rparr>) n \<and>
         db (snd (docsRouter_post ieee u_id u_rev peers fetch input n)) [] = db n []"
proof -
  have ne: "[] \<noteq> u_id" using assms(1) uuid_nonempty by auto
  have key: "or_else (in_id input) u_id = u_id" using assms(2) by (simp add: or_else_def)
  have 1: "put ieee u_id u_rev input s = casPut ieee u_id u_rev input s"
    by (simp add: put_casPut key)
  have 2: "put ieee u_id u_rev (input\<lparr>in_id := None\<rparr>) s = casPut ieee u_id u_rev input s"
    by (simp add: put_casPut or_else_def casPut_ignores_id)
  have 3: "snd (put ieee u_id u_rev input s) [] = s []"
    using casPut_other_keys [OF ne] by (simp add: 1)
  have 4: "docsRouter_post ieee u_id u_rev peers fetch input n =
           docsRouter_post ieee u_id u_rev peers fetch (input\<lparr>in_id := None\<rparr>) n"
  proof -
    have "docsRouter_post_fn u_rev peers fetch input u_id =
          docsRouter_post_fn u_rev peers fetch (input\<lparr>in_id := None\<rparr>) u_id"
      by (rule ext) (simp add: docsRouter_post_fn_def)
    then show ?thesis by (simp add: docsRouter_post_def assms(2) or_else_def)
  qed
  have 5: "db (snd (docsRouter_post ieee u_id u_rev peers fetch input n)) [] = db n []"
    using post_other_keys [of "[]" input u_id] ne by (simp add: key)
  from 1 2 3 4 5 show ?thesis by simp
qed

theorem empty_id_not_a_key_witness:
  "is_uuidv4 ''0123abcd-aaaa-4bbb-8ccc-dddddddddddd'' \<and>
   in_id \<lparr> in_id = Some [], in_rev = None, in_fields = [''t'' \<mapsto> (1::nat)] \<rparr> = Some [] \<and>
   put (\<lambda>t. t) ''0123abcd-aaaa-4bbb-8ccc-dddddddddddd'' ''89abcdef-aaaa-4bbb-8ccc-dddddddddddd''
     \<lparr> in_id = Some [], in_rev = None, in_fields = [''t'' \<mapsto> (1::nat)] \<rparr> Map.empty =
     (Inr \<lparr> doc_id = ''0123abcd-aaaa-4bbb-8ccc-dddddddddddd'', doc_rev = Some ''1-89abcdef'',
            doc_fields = [''t'' \<mapsto> 1] \<rparr>,
      [''0123abcd-aaaa-4bbb-8ccc-dddddddddddd'' \<mapsto>
         Encoded \<lparr> doc_id = ''0123abcd-aaaa-4bbb-8ccc-dddddddddddd'', doc_rev = Some ''1-89abcdef'',
            doc_fields = [''t'' \<mapsto> 1] \<rparr>]) \<and>
   snd (put (\<lambda>t. t) ''0123abcd-aaaa-4bbb-8ccc-dddddddddddd'' ''89abcdef-aaaa-4bbb-8ccc-dddddddddddd''
     \<lparr> in_id = Some [], in_rev = None, in_fields = [''t'' \<mapsto> (1::nat)] \<rparr> Map.empty) [] = None \<and>
   db (snd (docsRouter_post (\<lambda>t. t) ''0123abcd-aaaa-4bbb-8ccc-dddddddddddd''
     ''89abcdef-aaaa-4bbb-8ccc-dddddddddddd'' [] (\<lambda>url msg. Rejected)
     \<lparr> in_id = Some [], in_rev = None, in_fields = [''t'' \<mapsto> (1::nat)] \<rparr>
     \<lparr> db = Map.empty, mutexes = Map.empty \<rparr>)) [] = None"
proof -
  have h1: "is_uuidv4 ''0123abcd-aaaa-4bbb-8ccc-dddddddddddd''"
    by (simp add: is_uuidv4_def is_hex_def)
  have h2: "in_id \<lparr> in_id = Some [], in_rev = None, in_fields = [''t'' \<mapsto> (1::nat)] \<rparr> = Some []" by simp
  have e: "put (\<lambda>t. t) ''0123abcd-aaaa-4bbb-8ccc-dddddddddddd'' ''89abcdef-aaaa-4bbb-8ccc-dddddddddddd''
     \<lparr> in_id = Some [], in_rev = None, in_fields = [''t'' \<mapsto> (1::nat)] \<rparr> Map.empty =
     (Inr \<lparr> doc_id = ''0123abcd-aaaa-4bbb-8ccc-dddddddddddd'', doc_rev = Some ''1-89abcdef'',
            doc_fields = [''t'' \<mapsto> 1] \<rparr>,
      [''0123abcd-aaaa-4bbb-8ccc-dddddddddddd'' \<mapsto>
         Encoded \<lparr> doc_id = ''0123abcd-aaaa-4bbb-8ccc-dddddddddddd'', doc_rev = Some ''1-89abcdef'',
            doc_fields = [''t'' \<mapsto> 1] \<rparr>])"
    by (simp add: put_casPut casPut_eq eval_defs)
  note t = empty_id_not_a_key [where u_id = "''0123abcd-aaaa-4bbb-8ccc-dddddddddddd''"
      and u_rev = "''89abcdef-aaaa-4bbb-8ccc-dddddddddddd''" and ieee = "\<lambda>t. t"
      and input = "\<lparr> in_id = Some [], in_rev = None, in_fields = [''t'' \<mapsto> (1::nat)] \<rparr>"
      and s = Map.empty and peers = "[]" and fetch = "\<lambda>url msg. Rejected"
      and n = "\<lparr> db = Map.empty, mutexes = Map.empty \<rparr>", OF h1 h2]
  have "snd (put (\<lambda>t. t) ''0123abcd-aaaa-4bbb-8ccc-dddddddddddd'' ''89abcdef-aaaa-4bbb-8ccc-dddddddddddd''
     \<lparr> in_id = Some [], in_rev = None, in_fields = [''t'' \<mapsto> (1::nat)] \<rparr> Map.empty) [] = (Map.empty :: nat store) []"
    using t by blast
  then have c3: "snd (put (\<lambda>t. t) ''0123abcd-aaaa-4bbb-8ccc-dddddddddddd'' ''89abcdef-aaaa-4bbb-8ccc-dddddddddddd''
     \<lparr> in_id = Some [], in_rev = None, in_fields = [''t'' \<mapsto> (1::nat)] \<rparr> Map.empty) [] = None" by simp
  have "db (snd (docsRouter_post (\<lambda>t. t) ''0123abcd-aaaa-4bbb-8ccc-dddddddddddd''
     ''89abcdef-aaaa-4bbb-8ccc-dddddddddddd'' [] (\<lambda>url msg. Rejected)
     \<lparr> in_id = Some [], in_rev = None, in_fields = [''t'' \<mapsto> (1::nat)] \<rparr>
     \<lparr> db = Map.empty, mutexes = Map.empty \<rparr>)) [] =
     db (\<lparr> db = Map.empty, mutexes = Map.empty \<rparr> :: nat node) []"
    using t by blast
  then have c5: "db (snd (docsRouter_post (\<lambda>t. t) ''0123abcd-aaaa-4bbb-8ccc-dddddddddddd''
     ''89abcdef-aaaa-4bbb-8ccc-dddddddddddd'' [] (\<lambda>url msg. Rejected)
     \<lparr> in_id = Some [], in_rev = None, in_fields = [''t'' \<mapsto> (1::nat)] \<rparr>
     \<lparr> db = Map.empty, mutexes = Map.empty \<rparr>)) [] = None" by simp
  from h1 h2 e c3 c5 show ?thesis by blast
qed

end
